theory Spec2Isabelle
  imports Complex_Main "HOL-Library.Sublist"
begin

section \<open>JavaScript values, errors and strings\<close>

text \<open>
  The module handles untyped data (\<^verbatim>\<open>any\<close>): whatever \<^verbatim>\<open>response.json()\<close> or the
  language model hands back. A value is what \<^verbatim>\<open>JSON.parse\<close> can produce, plus
  \<^verbatim>\<open>undefined\<close>, which reading an absent property yields. An object is its list of
  own properties. A number is a rational: every finite double is one, and the two zeros
  are both 0; a literal beyond the range of the doubles, which parses to an infinity, is
  outside the model. Strings are lists of \<^typ>\<open>char\<close>.
\<close>

datatype jsval =
    Undefined
  | Null
  | Bool bool
  | Num rat
  | Str string
  | Arr "jsval list"
  | Obj "(string \<times> jsval) list"

text \<open>
  What can be thrown. Every constructor but \<open>Thrown\<close> is an instance of \<^verbatim>\<open>Error\<close>
  and carries its \<^verbatim>\<open>message\<close>; \<open>Thrown\<close> is any other thrown value. The texts of
  the messages the platform and the libraries produce (TypeError, SyntaxError, ZodError,
  FetchError) are theirs; the ones written here follow V8 and are representative only.
\<close>

datatype js_error =
    Error string
  | TypeError string
  | SyntaxError string
  | ZodError string
  | FetchError string
  | Thrown

fun instanceofError :: "js_error \<Rightarrow> bool" where
  "instanceofError Thrown = False"
| "instanceofError _ = True"

fun message :: "js_error \<Rightarrow> string" where
  "message (Error m) = m"
| "message (TypeError m) = m"
| "message (SyntaxError m) = m"
| "message (ZodError m) = m"
| "message (FetchError m) = m"
| "message Thrown = []"

text \<open>Sequencing of computations that may throw: the first \<open>Inl\<close> wins.\<close>

definition andThen :: "js_error + 'a \<Rightarrow> ('a \<Rightarrow> js_error + 'b) \<Rightarrow> js_error + 'b" where
  "andThen m f = (case m of Inl e \<Rightarrow> Inl e | Inr x \<Rightarrow> f x)"

fun filterE :: "('a \<Rightarrow> js_error + bool) \<Rightarrow> 'a list \<Rightarrow> js_error + 'a list" where
  "filterE p [] = Inr []"
| "filterE p (x # xs) =
     (case p x of
        Inl e \<Rightarrow> Inl e
      | Inr b \<Rightarrow> (case filterE p xs of
                    Inl e \<Rightarrow> Inl e
                  | Inr ys \<Rightarrow> Inr (if b then x # ys else ys)))"

fun mapE :: "('a \<Rightarrow> js_error + 'b) \<Rightarrow> 'a list \<Rightarrow> js_error + 'b list" where
  "mapE f [] = Inr []"
| "mapE f (x # xs) =
     (case f x of
        Inl e \<Rightarrow> Inl e
      | Inr y \<Rightarrow> (case mapE f xs of Inl e \<Rightarrow> Inl e | Inr ys \<Rightarrow> Inr (y # ys)))"

text \<open>
  \<^verbatim>\<open>Array.prototype.find\<close> with a callback that may throw: the first element whose
  test is true, \<open>None\<close> for \<^verbatim>\<open>undefined\<close>; a throw on the way ends the scan.
\<close>

fun findE :: "('a \<Rightarrow> js_error + bool) \<Rightarrow> 'a list \<Rightarrow> js_error + 'a option" where
  "findE p [] = Inr None"
| "findE p (x # xs) =
     (case p x of
        Inl e \<Rightarrow> Inl e
      | Inr b \<Rightarrow> (if b then Inr (Some x) else findE p xs))"

subsection \<open>Strings\<close>

text \<open>
  \<^verbatim>\<open>String.prototype.toLowerCase\<close> and the conversion of a number to a string
  (\<^verbatim>\<open>Number.prototype.toString\<close>, as a template literal applies it) are the platform's.
  The model takes them as parameters and assumes nothing about them: which letters are
  folded and how a double is printed is theirs to say.
\<close>

record platform =
  toLowerCase :: "string \<Rightarrow> string"
  numberToString :: "rat \<Rightarrow> string"

text \<open>\<^verbatim>\<open>String.prototype.includes\<close>: the argument occurs at some position.\<close>

fun str_includes :: "string \<Rightarrow> string \<Rightarrow> bool" where
  "str_includes [] t = (t = [])"
| "str_includes (c # s) t = (prefix t (c # s) \<or> str_includes s t)"

text \<open>
  The decimal digits of a natural number, for the two places where the code prints one
  that is an integer well below \<open>10\<^sup>2\<^sup>1\<close> (the HTTP status and the length of an
  array), where JavaScript prints the digits too.
\<close>

definition digit :: "nat \<Rightarrow> char" where
  "digit d = char_of (48 + d)"

fun showNat :: "nat \<Rightarrow> string" where
  "showNat n = (if n < 10 then [digit n] else showNat (n div 10) @ [digit (n mod 10)])"

declare showNat.simps [simp del]

fun joinComma :: "(js_error + string) list \<Rightarrow> js_error + string" where
  "joinComma [] = Inr []"
| "joinComma [x] = x"
| "joinComma (x # y # ys) =
     (case x of
        Inl e \<Rightarrow> Inl e
      | Inr s \<Rightarrow> (case joinComma (y # ys) of
                    Inl e \<Rightarrow> Inl e
                  | Inr r \<Rightarrow> Inr (s @ '','' @ r)))"

text \<open>
  \<^verbatim>\<open>ToString\<close>, as a template literal applies it. An array joins its elements with
  commas, \<^verbatim>\<open>null\<close> and \<^verbatim>\<open>undefined\<close> elements as the empty string. A plain object is
  \<^verbatim>\<open>[object Object]\<close>, unless it has an own property \<^verbatim>\<open>toString\<close>: a parsed value is
  never callable, so the conversion to a primitive then fails with a TypeError.
\<close>

fun toStr :: "platform \<Rightarrow> jsval \<Rightarrow> js_error + string" where
  "toStr pf Undefined = Inr ''undefined''"
| "toStr pf Null = Inr ''null''"
| "toStr pf (Bool b) = Inr (if b then ''true'' else ''false'')"
| "toStr pf (Num n) = Inr (numberToString pf n)"
| "toStr pf (Str s) = Inr s"
| "toStr pf (Arr xs) =
     joinComma (map (\<lambda>x. if x = Undefined \<or> x = Null then Inr [] else toStr pf x) xs)"
| "toStr pf (Obj kvs) =
     (if ''toString'' \<in> fst ` set kvs
      then Inl (TypeError ''Cannot convert object to primitive value'')
      else Inr ''[object Object]'')"

subsection \<open>Truthiness, property access\<close>

fun truthy :: "jsval \<Rightarrow> bool" where
  "truthy Undefined = False"
| "truthy Null = False"
| "truthy (Bool b) = b"
| "truthy (Num n) = (n \<noteq> 0)"
| "truthy (Str s) = (s \<noteq> [])"
| "truthy (Arr xs) = True"
| "truthy (Obj kvs) = True"

text \<open>\<^verbatim>\<open>a || b\<close> on values.\<close>

definition orElse :: "jsval \<Rightarrow> jsval \<Rightarrow> jsval" where
  "orElse a b = (if truthy a then a else b)"

fun nullish :: "jsval \<Rightarrow> bool" where
  "nullish Undefined = True"
| "nullish Null = True"
| "nullish _ = False"

fun isArray :: "jsval \<Rightarrow> bool" where
  "isArray (Arr xs) = True"
| "isArray _ = False"

text \<open>
  \<^verbatim>\<open>v.k\<close>: a TypeError on \<^verbatim>\<open>null\<close> and \<^verbatim>\<open>undefined\<close>, the own property of an object
  (the last one of that name, as \<^verbatim>\<open>JSON.parse\<close> keeps it, is the first of the list),
  \<^verbatim>\<open>undefined\<close> when there is none. The module reads only the properties
  \<^verbatim>\<open>data\<close>, \<^verbatim>\<open>name\<close>, \<^verbatim>\<open>chainId\<close>, \<^verbatim>\<open>type\<close>, \<^verbatim>\<open>gasToken\<close>, \<^verbatim>\<open>symbol\<close>, ... of such
  values; none of them is inherited from a prototype, so a string, number, boolean or
  array has none of them.
\<close>

fun getProp :: "jsval \<Rightarrow> string \<Rightarrow> js_error + jsval" where
  "getProp Undefined k =
     Inl (TypeError (''Cannot read properties of undefined (reading '' @ k @ '')''))"
| "getProp Null k =
     Inl (TypeError (''Cannot read properties of null (reading '' @ k @ '')''))"
| "getProp (Obj kvs) k = Inr (case map_of kvs k of None \<Rightarrow> Undefined | Some v \<Rightarrow> v)"
| "getProp _ k = Inr Undefined"

text \<open>\<^verbatim>\<open>v?.k\<close>\<close>

definition getPropOpt :: "jsval \<Rightarrow> string \<Rightarrow> js_error + jsval" where
  "getPropOpt v k = (if nullish v then Inr Undefined else getProp v k)"

subsection \<open>HTTP\<close>

text \<open>
  What one \<^verbatim>\<open>fetch\<close> gives: the promise rejects (no connection, DNS, ...), or a response
  with status, status text and a body; \<^verbatim>\<open>response.json()\<close> yields the parsed body or
  rejects when the body is not JSON.
\<close>

datatype http_body = JsonBody jsval | BadBody js_error

datatype http_outcome = NetworkFailure js_error | HttpResponse nat string http_body

definition ok :: "nat \<Rightarrow> bool" where
  "ok status = (200 \<le> status \<and> status \<le> 299)"

definition json :: "http_body \<Rightarrow> js_error + jsval" where
  "json b = (case b of JsonBody v \<Rightarrow> Inr v | BadBody e \<Rightarrow> Inl e)"

section \<open>Chain lookup (controllers/nitroController.ts)\<close>

record chain_info =
  c_name :: jsval
  c_chainId :: jsval
  c_type :: jsval
  c_isLive :: jsval

record gas_info =
  g_token :: jsval
  g_limits :: jsval

record feature_info =
  f_isIntentApiSupported :: jsval
  f_isRefuelEnabled :: jsval
  f_isQREnabled :: jsval

record metadata_info =
  m_createdAt :: jsval
  m_updatedAt :: jsval

record chain_query_result =
  chain :: chain_info
  gas :: gas_info
  features :: feature_info
  metadata :: metadata_info
  url :: string
  q_timestamp :: string

text \<open>
  The object \<^verbatim>\<open>getChainDetails\<close> resolves to. \<open>data = None\<close> is \<^verbatim>\<open>data: null\<close>;
  \<open>count = None\<close> is the failure object, which has no \<^verbatim>\<open>count\<close>.
\<close>

record chain_result =
  success :: bool
  data :: "chain_query_result list option"
  r_message :: string
  r_timestamp :: string
  source :: string
  count :: "nat option"

text \<open>\<^verbatim>\<open>v?.toLowerCase().includes(searchTerm)\<close>, as the filter reads it (its truthiness).\<close>

fun lowerIncludes :: "platform \<Rightarrow> jsval \<Rightarrow> string \<Rightarrow> js_error + bool" where
  "lowerIncludes pf Undefined t = Inr False"
| "lowerIncludes pf Null t = Inr False"
| "lowerIncludes pf (Str s) t = Inr (str_includes (toLowerCase pf s) t)"
| "lowerIncludes pf _ t = Inl (TypeError ''toLowerCase is not a function'')"

text \<open>The filter's callback, lines 41 to 45: four tests joined by \<^verbatim>\<open>||\<close>, left to right.\<close>

definition chainMatches :: "platform \<Rightarrow> string \<Rightarrow> jsval \<Rightarrow> js_error + bool" where
  "chainMatches pf searchTerm c =
     andThen (getProp c ''name'') (\<lambda>n.
     andThen (lowerIncludes pf n searchTerm) (\<lambda>b1.
     if b1 then Inr True else
     andThen (getProp c ''chainId'') (\<lambda>i.
     andThen (lowerIncludes pf i searchTerm) (\<lambda>b2.
     if b2 then Inr True else
     andThen (getProp c ''type'') (\<lambda>t.
     andThen (lowerIncludes pf t searchTerm) (\<lambda>b3.
     if b3 then Inr True else
     andThen (getProp c ''gasToken'') (\<lambda>g.
     andThen (getPropOpt g ''symbol'') (\<lambda>s.
     lowerIncludes pf s searchTerm))))))))"

text \<open>The map's callback, lines 49 to 71.\<close>

definition processChain :: "platform \<Rightarrow> string \<Rightarrow> jsval \<Rightarrow> js_error + chain_query_result" where
  "processChain pf now c =
     andThen (getProp c ''name'') (\<lambda>name.
     andThen (getProp c ''chainId'') (\<lambda>chainId.
     andThen (getProp c ''type'') (\<lambda>type.
     andThen (getProp c ''isLive'') (\<lambda>isLive.
     andThen (getProp c ''gasToken'') (\<lambda>gasToken.
     andThen (getProp c ''gasLimit'') (\<lambda>gasLimit.
     andThen (getProp c ''isIntentApiSupported'') (\<lambda>isIntentApiSupported.
     andThen (getProp c ''isRefuelEnabled'') (\<lambda>isRefuelEnabled.
     andThen (getProp c ''isQREnabled'') (\<lambda>isQREnabled.
     andThen (getProp c ''createdAt'') (\<lambda>createdAt.
     andThen (getProp c ''updatedAt'') (\<lambda>updatedAt.
     andThen (toStr pf chainId) (\<lambda>idText.
     Inr \<lparr> chain = \<lparr> c_name = orElse name (Str ''Unknown''),
                      c_chainId = orElse chainId (Str ''Unknown''),
                      c_type = orElse type (Str ''Unknown''),
                      c_isLive = orElse isLive (Bool False) \<rparr>,
           gas = \<lparr> g_token = orElse gasToken Null,
                    g_limits = orElse gasLimit (Obj []) \<rparr>,
           features = \<lparr> f_isIntentApiSupported = orElse isIntentApiSupported (Bool False),
                         f_isRefuelEnabled = orElse isRefuelEnabled (Bool False),
                         f_isQREnabled = orElse isQREnabled (Bool False) \<rparr>,
           metadata = \<lparr> m_createdAt = orElse createdAt Null,
                         m_updatedAt = orElse updatedAt Null \<rparr>,
           url = ''https://routernitro.com/chain/'' @ idText,
           q_timestamp = now \<rparr>))))))))))))"

text \<open>
  The \<^verbatim>\<open>try\<close> block of \<^verbatim>\<open>getChainDetails\<close>, lines 5 to 83. \<open>now\<close> is what
  \<^verbatim>\<open>new Date().toISOString()\<close> reads; \<open>resp\<close> is what the one \<^verbatim>\<open>fetch\<close> of the chain
  directory gives. Logging has no effect on the result and is left out.
\<close>

definition getChainDetails_try ::
  "platform \<Rightarrow> string \<Rightarrow> http_outcome \<Rightarrow> string \<Rightarrow> js_error + chain_result" where
  "getChainDetails_try pf now resp chainQuery =
     (case resp of
        NetworkFailure e \<Rightarrow> Inl e
      | HttpResponse status statusText body \<Rightarrow>
          if \<not> ok status
          then Inl (Error (''RouterNitro API error: '' @ showNat status @ '' '' @ statusText))
          else
            andThen (json body) (\<lambda>d.
            andThen (getProp d ''data'') (\<lambda>dd.
            if \<not> truthy dd \<or> \<not> isArray dd
            then Inl (Error ''Invalid API response format'')
            else
              (case dd of
                 Arr fetched \<Rightarrow>
                   andThen (filterE (chainMatches pf (toLowerCase pf chainQuery)) fetched)
                     (\<lambda>matchingChains.
                   andThen (mapE (processChain pf now) matchingChains) (\<lambda>processedData.
                   Inr \<lparr> success = True,
                         data = Some processedData,
                         r_message =
                           (if length processedData > 0
                            then ''Found '' @ showNat (length processedData) @ '' matching chains''
                            else ''No matching chains found''),
                         r_timestamp = now,
                         source = ''RouterNitro'',
                         count = Some (length processedData) \<rparr>))
               | _ \<Rightarrow> Inl (Error ''Invalid API response format'')))))"

text \<open>\<^verbatim>\<open>getChainDetails\<close>: the \<^verbatim>\<open>try\<close> block under its \<^verbatim>\<open>catch\<close>, lines 84 to 95.\<close>

definition getChainDetails ::
  "platform \<Rightarrow> string \<Rightarrow> http_outcome \<Rightarrow> string \<Rightarrow> js_error + chain_result" where
  "getChainDetails pf now resp chainQuery =
     (case getChainDetails_try pf now resp chainQuery of
        Inr r \<Rightarrow> Inr r
      | Inl error \<Rightarrow>
          Inr \<lparr> success = False,
                data = None,
                r_message =
                  (if instanceofError error then message error else ''An unknown error occurred''),
                r_timestamp = now,
                source = ''RouterNitro'',
                count = None \<rparr>)"

section \<open>The tool (tools/nitro.ts)\<close>

subsection \<open>Schemas\<close>

text \<open>
  A \<^verbatim>\<open>z.object\<close> schema accepts an object (not \<^verbatim>\<open>null\<close>, not an array), reads each
  key of its shape, checks it (\<^verbatim>\<open>z.string()\<close>: a string; \<^verbatim>\<open>z.number()\<close>: a number;
  \<^verbatim>\<open>z.array(z.any())\<close>: an array) and returns a new object of exactly the keys of the
  shape; \<^verbatim>\<open>parse\<close> throws a ZodError otherwise.
\<close>

definition field :: "jsval \<Rightarrow> string \<Rightarrow> jsval" where
  "field v k =
     (case v of
        Obj kvs \<Rightarrow> (case map_of kvs k of None \<Rightarrow> Undefined | Some x \<Rightarrow> x)
      | _ \<Rightarrow> Undefined)"

record transaction_details =
  fromChain :: string
  toChain :: string
  amount :: string
  fromToken :: string
  toToken :: string

definition TransactionDetailsSchema_parse :: "jsval \<Rightarrow> js_error + transaction_details" where
  "TransactionDetailsSchema_parse v =
     (case v of
        Obj kvs \<Rightarrow>
          (case (field v ''fromChain'', field v ''toChain'', field v ''amount'',
                 field v ''fromToken'', field v ''toToken'') of
             (Str fc, Str tc, Str a, Str ft, Str tt) \<Rightarrow>
               Inr \<lparr> fromChain = fc, toChain = tc, amount = a, fromToken = ft, toToken = tt \<rparr>
           | _ \<Rightarrow> Inl (ZodError ''invalid_type''))
      | _ \<Rightarrow> Inl (ZodError ''invalid_type''))"

record token_details =
  symbol :: string
  address :: string
  decimals :: rat
  t_chainId :: string

definition TokenDetailsSchema_parse :: "jsval \<Rightarrow> js_error + token_details" where
  "TokenDetailsSchema_parse v =
     (case v of
        Obj kvs \<Rightarrow>
          (case (field v ''symbol'', field v ''address'', field v ''decimals'',
                 field v ''chainId'') of
             (Str s, Str a, Num d, Str c) \<Rightarrow>
               Inr \<lparr> symbol = s, address = a, decimals = d, t_chainId = c \<rparr>
           | _ \<Rightarrow> Inl (ZodError ''invalid_type''))
      | _ \<Rightarrow> Inl (ZodError ''invalid_type''))"

record quote_response =
  estimatedGas :: rat
  route :: "jsval list"
  expectedOutput :: string
  priceImpact :: string

definition QuoteResponseSchema_parse :: "jsval \<Rightarrow> js_error + quote_response" where
  "QuoteResponseSchema_parse v =
     (case v of
        Obj kvs \<Rightarrow>
          (case (field v ''estimatedGas'', field v ''route'', field v ''expectedOutput'',
                 field v ''priceImpact'') of
             (Num g, Arr r, Str e, Str p) \<Rightarrow>
               Inr \<lparr> estimatedGas = g, route = r, expectedOutput = e, priceImpact = p \<rparr>
           | _ \<Rightarrow> Inl (ZodError ''invalid_type''))
      | _ \<Rightarrow> Inl (ZodError ''invalid_type''))"

subsection \<open>Parameter extraction\<close>

text \<open>
  \<^verbatim>\<open>content.match(/\{[\s\S]*\}/)\<close>: the match starts at the first \<^verbatim>\<open>{\<close> and, the star
  being greedy, ends at the last \<^verbatim>\<open>}\<close> after it; there is no match when no \<^verbatim>\<open>}\<close>
  follows the first \<^verbatim>\<open>{\<close> (then none follows a later one either).
\<close>

definition jsonMatch :: "string \<Rightarrow> string option" where
  "jsonMatch content =
     (case dropWhile (\<lambda>c. c \<noteq> CHR ''{'') content of
        [] \<Rightarrow> None
      | b # rest \<Rightarrow>
          if CHR ''}'' \<in> set rest
          then Some (b # rev (dropWhile (\<lambda>c. c \<noteq> CHR ''}'') (rev rest)))
          else None)"

definition userPrompt :: "string \<Rightarrow> string" where
  "userPrompt query =
     ''Extract transaction parameters from this query: \"'' @ query @
     ''\"\<newline>\<newline>Return ONLY a JSON object with these fields:\<newline>- fromChain\<newline>- toChain\<newline>- amount\<newline>- fromToken\<newline>- toToken''"

text \<open>
  The inner \<^verbatim>\<open>try\<close> block, lines 69 to 85, on the \<^verbatim>\<open>content\<close> of the model's reply.
  \<open>JSON_parse\<close> is the platform's \<^verbatim>\<open>JSON.parse\<close>, a parameter: the parsed value, or the
  SyntaxError it throws.
\<close>

definition parseReply :: "(string \<Rightarrow> js_error + jsval) \<Rightarrow> jsval \<Rightarrow> js_error + transaction_details" where
  "parseReply JSON_parse content =
     andThen
       (case content of
          Str s \<Rightarrow>
            (case jsonMatch s of
               Some m \<Rightarrow> JSON_parse m
             | None \<Rightarrow> Inl (Error ''No JSON object found in LLM response''))
        | _ \<Rightarrow> Inr content)
       TransactionDetailsSchema_parse"

text \<open>
  \<^verbatim>\<open>extractTransactionDetails\<close>, lines 52 to 102. \<open>llm\<close> is \<^verbatim>\<open>llm.invoke\<close>: from the
  messages (role and content) to the \<^verbatim>\<open>content\<close> of the reply, or the rejection. Both
  \<^verbatim>\<open>catch\<close> blocks rethrow a new \<^verbatim>\<open>Error\<close>.
\<close>

definition errorMessageOr :: "js_error \<Rightarrow> string \<Rightarrow> string" where
  "errorMessageOr e dflt = (if instanceofError e then message e else dflt)"

definition extractTransactionDetails ::
  "(string \<Rightarrow> js_error + jsval) \<Rightarrow> ((string \<times> string) list \<Rightarrow> js_error + jsval) \<Rightarrow> string
     \<Rightarrow> js_error + transaction_details" where
  "extractTransactionDetails JSON_parse llm query =
     (case
        andThen
          (llm [(''system'', ''Extract transaction parameters and return them as a JSON object.''),
                (''user'', userPrompt query)])
          (\<lambda>content.
             case parseReply JSON_parse content of
               Inr d \<Rightarrow> Inr d
             | Inl parseError \<Rightarrow>
                 Inl (Error (''Failed to parse transaction details: '' @
                             errorMessageOr parseError ''Unknown parsing error'')))
      of
        Inr d \<Rightarrow> Inr d
      | Inl error \<Rightarrow>
          Inl (Error (''Failed to extract transaction parameters: '' @
                      errorMessageOr error ''Unknown error'')))"

subsection \<open>Token lookup\<close>

text \<open>The callback of \<^verbatim>\<open>find\<close>, line 124: \<^verbatim>\<open>t.symbol.toLowerCase() === tokenSymbol.toLowerCase()\<close>.\<close>

definition symbolMatches :: "platform \<Rightarrow> string \<Rightarrow> jsval \<Rightarrow> js_error + bool" where
  "symbolMatches pf tokenSymbol t =
     andThen (getProp t ''symbol'') (\<lambda>s.
       case s of
         Str x \<Rightarrow> Inr (toLowerCase pf x = toLowerCase pf tokenSymbol)
       | Undefined \<Rightarrow>
           Inl (TypeError ''Cannot read properties of undefined (reading toLowerCase)'')
       | Null \<Rightarrow> Inl (TypeError ''Cannot read properties of null (reading toLowerCase)'')
       | _ \<Rightarrow> Inl (TypeError ''t.symbol.toLowerCase is not a function''))"

text \<open>
  Lines 122 to 127 of \<^verbatim>\<open>getTokenDetails\<close>, on the parsed body \<open>d\<close>: the scan and the
  validation of what it found. \<^verbatim>\<open>tokens.find\<close> on anything but an array is a call of
  \<^verbatim>\<open>undefined\<close>.
\<close>

definition pickToken ::
  "platform \<Rightarrow> string \<Rightarrow> jsval \<Rightarrow> js_error + token_details option" where
  "pickToken pf tokenSymbol d =
     andThen (getProp d ''data'') (\<lambda>dd.
     case orElse dd (Arr []) of
       Arr tokens \<Rightarrow>
         andThen (findE (symbolMatches pf tokenSymbol) tokens) (\<lambda>token.
           case token of
             None \<Rightarrow> Inr None
           | Some t \<Rightarrow>
               if truthy t
               then andThen (TokenDetailsSchema_parse t) (\<lambda>r. Inr (Some r))
               else Inr None)
     | _ \<Rightarrow> Inl (TypeError ''tokens.find is not a function''))"

text \<open>
  The \<^verbatim>\<open>try\<close> block of \<^verbatim>\<open>getTokenDetails\<close>, lines 107 to 127. \<open>tokenApi\<close> is the
  \<^verbatim>\<open>fetch\<close> of the token list, from the URL. The TypeScript signature says
  \<^verbatim>\<open>chainId: string\<close>; the caller passes what the chain lookup left in
  \<^verbatim>\<open>chain.chainId\<close>, any value.
\<close>

definition getTokenDetails_try ::
  "platform \<Rightarrow> (string \<Rightarrow> http_outcome) \<Rightarrow> jsval \<Rightarrow> string
     \<Rightarrow> js_error + token_details option" where
  "getTokenDetails_try pf tokenApi chainId tokenSymbol =
     andThen (toStr pf chainId) (\<lambda>idText.
     case tokenApi (''https://api.nitroswap.routernitro.com/token/'' @ idText) of
       NetworkFailure e \<Rightarrow> Inl e
     | HttpResponse status statusText body \<Rightarrow>
         if \<not> ok status
         then Inl (Error (''Token API error: '' @ showNat status @ '' '' @ statusText))
         else andThen (json body) (pickToken pf tokenSymbol))"

definition getTokenDetails ::
  "platform \<Rightarrow> (string \<Rightarrow> http_outcome) \<Rightarrow> jsval \<Rightarrow> string
     \<Rightarrow> js_error + token_details option" where
  "getTokenDetails pf tokenApi chainId tokenSymbol =
     (case getTokenDetails_try pf tokenApi chainId tokenSymbol of
        Inr r \<Rightarrow> Inr r
      | Inl error \<Rightarrow> Inr None)"

subsection \<open>Quote lookup\<close>

record quote_params =
  fromChainId :: jsval
  toChainId :: jsval
  fromTokenAddress :: string
  toTokenAddress :: string
  p_amount :: string

text \<open>
  \<^verbatim>\<open>getTransactionDetails\<close>, lines 135 to 167. \<open>quoteApi\<close> is the POST to the quote
  endpoint, from the parameters it serialises into the body.
\<close>

definition getTransactionDetails_try ::
  "(quote_params \<Rightarrow> http_outcome) \<Rightarrow> quote_params \<Rightarrow> js_error + quote_response option" where
  "getTransactionDetails_try quoteApi params =
     (case quoteApi params of
        NetworkFailure e \<Rightarrow> Inl e
      | HttpResponse status statusText body \<Rightarrow>
          if \<not> ok status
          then Inl (Error (''Quote API error: '' @ showNat status @ '' '' @ statusText))
          else
            andThen (json body) (\<lambda>d.
            andThen (QuoteResponseSchema_parse d) (\<lambda>r. Inr (Some r))))"

definition getTransactionDetails ::
  "(quote_params \<Rightarrow> http_outcome) \<Rightarrow> quote_params \<Rightarrow> js_error + quote_response option" where
  "getTransactionDetails quoteApi params =
     (case getTransactionDetails_try quoteApi params of
        Inr r \<Rightarrow> Inr r
      | Inl error \<Rightarrow> Inr None)"

subsection \<open>The pipeline\<close>

text \<open>
  What the tool talks to: the platform, the language model, the platform's
  \<^verbatim>\<open>JSON.parse\<close>, the three remote endpoints and the clock. The chain directory and the token list are fetched
  twice in one run (source side: call 0, destination side: call 1); each call has its
  own outcome.
\<close>

record env =
  platform :: platform
  llmInvoke :: "(string \<times> string) list \<Rightarrow> js_error + jsval"
  jsonParse :: "string \<Rightarrow> js_error + jsval"
  chainFetch :: "nat \<Rightarrow> http_outcome"
  tokenFetch :: "nat \<Rightarrow> string \<Rightarrow> http_outcome"
  quoteFetch :: "quote_params \<Rightarrow> http_outcome"
  clock :: string

text \<open>The calls of the four stages, in the order they are made.\<close>

datatype event =
    Extraction string
  | ChainLookup string
  | TokenLookup jsval string
  | QuoteLookup quote_params

fun isTokenLookup :: "event \<Rightarrow> bool" where
  "isTokenLookup (TokenLookup c s) = True"
| "isTokenLookup _ = False"

fun isQuoteLookup :: "event \<Rightarrow> bool" where
  "isQuoteLookup (QuoteLookup p) = True"
| "isQuoteLookup _ = False"

record route_artifact =
  a_fromChain :: chain_info
  a_toChain :: chain_info
  a_fromToken :: token_details
  a_toToken :: token_details
  a_amount :: string
  a_quote :: quote_response

text \<open>
  The second element of the tuple the tool returns:
  \<^verbatim>\<open>{error, details: {fromChainResult, toChainResult}}\<close>,
  \<^verbatim>\<open>{error, details: {fromToken, toToken}}\<close>, \<^verbatim>\<open>{error}\<close>,
  \<^verbatim>\<open>{fromChain, toChain, fromToken, toToken, amount, quote}\<close> and \<^verbatim>\<open>{error, query}\<close>.
\<close>

datatype artifact =
    ChainFailure string chain_result chain_result
  | TokenFailure string "token_details option" "token_details option"
  | QuoteFailure string
  | RouteFound route_artifact
  | Crash string string

type_synonym outcome = "(js_error + string \<times> artifact) \<times> event list"

text \<open>The template literal of lines 231 to 235.\<close>

definition humanReadableResponse ::
  "platform \<Rightarrow> transaction_details \<Rightarrow> quote_response \<Rightarrow> string" where
  "humanReadableResponse pf details transactionDetails =
     ''Found route to '' @ toToken details @ '' on '' @ toChain details @ '' chain:'' @
     ''\<newline>- Amount: '' @ amount details @ '' '' @ fromToken details @
     ''\<newline>- Expected output: '' @ expectedOutput transactionDetails @ '' '' @ toToken details @
     ''\<newline>- Price impact: '' @ priceImpact transactionDetails @
     ''\<newline>- Estimated gas: '' @ numberToString pf (estimatedGas transactionDetails)"

text \<open>Step 4 and step 5, lines 214 to 247, after both tokens were found. The primed
  parameters are the local constants of the same names.\<close>

definition quoteStage ::
  "env \<Rightarrow> transaction_details \<Rightarrow> chain_info \<Rightarrow> chain_info \<Rightarrow> token_details \<Rightarrow> token_details
     \<Rightarrow> event list \<Rightarrow> outcome" where
  "quoteStage w details fromChain' toChain' fromToken' toToken' tr =
     (let params = \<lparr> fromChainId = c_chainId fromChain',
                      toChainId = c_chainId toChain',
                      fromTokenAddress = address fromToken',
                      toTokenAddress = address toToken',
                      p_amount = amount details \<rparr>;
          tr' = tr @ [QuoteLookup params]
      in case getTransactionDetails (quoteFetch w) params of
           Inl e \<Rightarrow> (Inl e, tr')
         | Inr None \<Rightarrow>
             (Inr (''Failed to fetch quote. Please try again with different parameters.'',
                   QuoteFailure ''Error getting quote''), tr')
         | Inr (Some transactionDetails) \<Rightarrow>
             (Inr (humanReadableResponse (platform w) details transactionDetails,
                   RouteFound \<lparr> a_fromChain = fromChain',
                                a_toChain = toChain',
                                a_fromToken = fromToken',
                                a_toToken = toToken',
                                a_amount = amount details,
                                a_quote = transactionDetails \<rparr>), tr'))"

text \<open>\<^verbatim>\<open>result.data[0]?.chain\<close>, lines 195 and 196: \<open>None\<close> is \<^verbatim>\<open>undefined\<close>.\<close>

definition firstChain :: "chain_result \<Rightarrow> js_error + chain_info option" where
  "firstChain r =
     (case data r of
        None \<Rightarrow> Inl (TypeError ''Cannot read properties of null (reading 0)'')
      | Some [] \<Rightarrow> Inr None
      | Some (x # xs) \<Rightarrow> Inr (Some (chain x)))"

text \<open>
  Step 3, lines 198 to 212. The array handed to \<^verbatim>\<open>Promise.all\<close> is built left to right:
  \<^verbatim>\<open>fromChain.chainId\<close> is read and the first lookup started before
  \<^verbatim>\<open>toChain.chainId\<close> is read, and reading a property of \<^verbatim>\<open>undefined\<close> throws.
\<close>

definition tokenStage ::
  "env \<Rightarrow> transaction_details \<Rightarrow> chain_info option \<Rightarrow> chain_info option \<Rightarrow> event list
     \<Rightarrow> outcome" where
  "tokenStage w details fromChain' toChain' tr =
     (case fromChain' of
        None \<Rightarrow> (Inl (TypeError ''Cannot read properties of undefined (reading chainId)''), tr)
      | Some fc \<Rightarrow>
          (let p1 = getTokenDetails (platform w) (tokenFetch w 0) (c_chainId fc) (fromToken details);
               tr1 = tr @ [TokenLookup (c_chainId fc) (fromToken details)]
           in case toChain' of
                None \<Rightarrow>
                  (Inl (TypeError ''Cannot read properties of undefined (reading chainId)''), tr1)
              | Some tc \<Rightarrow>
                  (let p2 = getTokenDetails (platform w) (tokenFetch w 1) (c_chainId tc)
                              (toToken details);
                       tr2 = tr1 @ [TokenLookup (c_chainId tc) (toToken details)]
                   in case andThen p1 (\<lambda>a. andThen p2 (\<lambda>b. Inr (a, b))) of
                        Inl e \<Rightarrow> (Inl e, tr2)
                      | Inr (Some ft, Some tt) \<Rightarrow> quoteStage w details fc tc ft tt tr2
                      | Inr (fromToken', toToken') \<Rightarrow>
                          (Inr (''Failed to fetch token details. Please check the token symbols and try again.'',
                                TokenFailure ''Invalid token information'' fromToken' toToken'),
                           tr2))))"

text \<open>Step 2, lines 180 to 196, after the extraction gave \<open>details\<close>.\<close>

definition chainStage :: "env \<Rightarrow> transaction_details \<Rightarrow> event list \<Rightarrow> outcome" where
  "chainStage w details tr =
     (let p1 = getChainDetails (platform w) (clock w) (chainFetch w 0) (fromChain details);
          p2 = getChainDetails (platform w) (clock w) (chainFetch w 1) (toChain details);
          tr' = tr @ [ChainLookup (fromChain details), ChainLookup (toChain details)]
      in case andThen p1 (\<lambda>a. andThen p2 (\<lambda>b. Inr (a, b))) of
           Inl e \<Rightarrow> (Inl e, tr')
         | Inr (fromChainResult, toChainResult) \<Rightarrow>
             if \<not> success fromChainResult \<or> \<not> success toChainResult
             then (Inr (''Failed to fetch chain details. Please check the chain names and try again.'',
                        ChainFailure ''Invalid chain information'' fromChainResult toChainResult),
                   tr')
             else
               (case andThen (firstChain fromChainResult) (\<lambda>a.
                     andThen (firstChain toChainResult) (\<lambda>b. Inr (a, b))) of
                  Inl e \<Rightarrow> (Inl e, tr')
                | Inr (fromChain', toChain') \<Rightarrow> tokenStage w details fromChain' toChain' tr'))"

text \<open>The \<^verbatim>\<open>try\<close> block of the tool, lines 172 to 247.\<close>

definition nitro_try :: "env \<Rightarrow> string \<Rightarrow> outcome" where
  "nitro_try w query =
     (case extractTransactionDetails (jsonParse w) (llmInvoke w) query of
        Inl e \<Rightarrow> (Inl e, [Extraction query])
      | Inr details \<Rightarrow> chainStage w details [Extraction query])"

text \<open>The tool: the \<^verbatim>\<open>try\<close> block under its \<^verbatim>\<open>catch\<close>, lines 248 to 257.\<close>

definition nitro :: "env \<Rightarrow> string \<Rightarrow> outcome" where
  "nitro w query =
     (case nitro_try w query of
        (Inr r, tr) \<Rightarrow> (Inr r, tr)
      | (Inl error, tr) \<Rightarrow>
          (Inr (''An error occurred while processing your request. Please try again.'',
                Crash (errorMessageOr error ''Unknown error'') query), tr))"

section \<open>The notions the specification is stated in\<close>

text \<open>
  The definitions of this section follow the words of the specification, not the code;
  the theorems below compare the code with them.
\<close>

fun isStr :: "jsval \<Rightarrow> bool" where
  "isStr (Str s) = True"
| "isStr _ = False"

fun isNum :: "jsval \<Rightarrow> bool" where
  "isNum (Num n) = True"
| "isNum _ = False"

fun strOf :: "jsval \<Rightarrow> string" where
  "strOf (Str s) = s"
| "strOf _ = []"

fun numOf :: "jsval \<Rightarrow> rat" where
  "numOf (Num n) = n"
| "numOf _ = 0"

text \<open>A field that is absent (or \<^verbatim>\<open>null\<close>), or a string.\<close>

definition optString :: "jsval \<Rightarrow> bool" where
  "optString v = (nullish v \<or> isStr v)"

text \<open>
  A chain of a well-formed directory response: an object whose \<^verbatim>\<open>name\<close>, \<^verbatim>\<open>chainId\<close>
  and \<^verbatim>\<open>type\<close> are strings where present, and whose \<^verbatim>\<open>gasToken\<close> is absent,
  \<^verbatim>\<open>null\<close> or an object whose \<^verbatim>\<open>symbol\<close> is a string where present.
\<close>

definition wellFormedChain :: "jsval \<Rightarrow> bool" where
  "wellFormedChain c =
     (case c of
        Obj kvs \<Rightarrow>
          optString (field c ''name'') \<and> optString (field c ''chainId'') \<and>
          optString (field c ''type'') \<and>
          (case field c ''gasToken'' of
             Undefined \<Rightarrow> True
           | Null \<Rightarrow> True
           | Obj g \<Rightarrow> optString (field (Obj g) ''symbol'')
           | _ \<Rightarrow> False)
      | _ \<Rightarrow> False)"

text \<open>
  The value is a string that contains the query as a substring, letter case aside: once
  both are folded to lower case, the query occurs in the string.
\<close>

definition ciContains :: "platform \<Rightarrow> jsval \<Rightarrow> string \<Rightarrow> bool" where
  "ciContains pf v q =
     (case v of Str s \<Rightarrow> sublist (toLowerCase pf q) (toLowerCase pf s) | _ \<Rightarrow> False)"

definition matchesQuery :: "platform \<Rightarrow> string \<Rightarrow> jsval \<Rightarrow> bool" where
  "matchesQuery pf q c =
     (ciContains pf (field c ''name'') q \<or> ciContains pf (field c ''chainId'') q \<or>
      ciContains pf (field c ''type'') q \<or>
      ciContains pf (field (field c ''gasToken'') ''symbol'') q)"

text \<open>
  The field with its default: the field itself when it holds a value that counts as true,
  the default when the field is absent or \<^verbatim>\<open>null\<close>, and also when it is \<^verbatim>\<open>false\<close>,
  \<^verbatim>\<open>0\<close> or the empty string.
\<close>

definition withDefault :: "jsval \<Rightarrow> jsval \<Rightarrow> jsval" where
  "withDefault src dflt =
     (case src of
        Undefined \<Rightarrow> dflt
      | Null \<Rightarrow> dflt
      | Bool b \<Rightarrow> (if b then src else dflt)
      | Num n \<Rightarrow> (if n = 0 then dflt else src)
      | Str t \<Rightarrow> (if t = [] then dflt else src)
      | _ \<Rightarrow> src)"

text \<open>The text of the \<^verbatim>\<open>chainId\<close> of a well-formed chain, as the URL of the record has it.\<close>

definition chainIdText :: "jsval \<Rightarrow> string" where
  "chainIdText v = (case v of Str t \<Rightarrow> t | Null \<Rightarrow> ''null'' | _ \<Rightarrow> ''undefined'')"

text \<open>The record a well-formed chain is reshaped into, at the time \<open>now\<close>.\<close>

definition reshape :: "string \<Rightarrow> jsval \<Rightarrow> chain_query_result" where
  "reshape now c =
     \<lparr> chain = \<lparr> c_name = withDefault (field c ''name'') (Str ''Unknown''),
                 c_chainId = withDefault (field c ''chainId'') (Str ''Unknown''),
                 c_type = withDefault (field c ''type'') (Str ''Unknown''),
                 c_isLive = withDefault (field c ''isLive'') (Bool False) \<rparr>,
       gas = \<lparr> g_token = withDefault (field c ''gasToken'') Null,
               g_limits = withDefault (field c ''gasLimit'') (Obj []) \<rparr>,
       features =
         \<lparr> f_isIntentApiSupported = withDefault (field c ''isIntentApiSupported'') (Bool False),
           f_isRefuelEnabled = withDefault (field c ''isRefuelEnabled'') (Bool False),
           f_isQREnabled = withDefault (field c ''isQREnabled'') (Bool False) \<rparr>,
       metadata = \<lparr> m_createdAt = withDefault (field c ''createdAt'') Null,
                    m_updatedAt = withDefault (field c ''updatedAt'') Null \<rparr>,
       url = ''https://routernitro.com/chain/'' @ chainIdText (field c ''chainId''),
       q_timestamp = now \<rparr>"

text \<open>
  What the specification says of the defaults: \<open>out\<close> is the default \<open>dflt\<close> when the
  field \<open>src\<close> is absent, and the field itself when it has a (truthy) value.
\<close>

definition defaulted :: "jsval \<Rightarrow> jsval \<Rightarrow> jsval \<Rightarrow> bool" where
  "defaulted src dflt out = ((nullish src \<longrightarrow> out = dflt) \<and> (truthy src \<longrightarrow> out = src))"

definition reshaped :: "jsval \<Rightarrow> chain_query_result \<Rightarrow> bool" where
  "reshaped c r =
     (defaulted (field c ''name'') (Str ''Unknown'') (c_name (chain r)) \<and>
      defaulted (field c ''chainId'') (Str ''Unknown'') (c_chainId (chain r)) \<and>
      defaulted (field c ''type'') (Str ''Unknown'') (c_type (chain r)) \<and>
      defaulted (field c ''isLive'') (Bool False) (c_isLive (chain r)) \<and>
      defaulted (field c ''isIntentApiSupported'') (Bool False)
        (f_isIntentApiSupported (features r)) \<and>
      defaulted (field c ''isRefuelEnabled'') (Bool False) (f_isRefuelEnabled (features r)) \<and>
      defaulted (field c ''isQREnabled'') (Bool False) (f_isQREnabled (features r)) \<and>
      defaulted (field c ''gasLimit'') (Obj []) (g_limits (gas r)) \<and>
      defaulted (field c ''gasToken'') Null (g_token (gas r)) \<and>
      defaulted (field c ''createdAt'') Null (m_createdAt (metadata r)) \<and>
      defaulted (field c ''updatedAt'') Null (m_updatedAt (metadata r)))"


text \<open>
  A token whose \<^verbatim>\<open>symbol\<close> is the given one, letter case aside: the two are equal once
  folded to lower case.
\<close>

definition symbolIs :: "platform \<Rightarrow> string \<Rightarrow> jsval \<Rightarrow> bool" where
  "symbolIs pf tokenSymbol t =
     (case field t ''symbol'' of
        Str s \<Rightarrow> toLowerCase pf s = toLowerCase pf tokenSymbol
      | _ \<Rightarrow> False)"

text \<open>The TokenRecord schema: \<^verbatim>\<open>symbol\<close>, \<^verbatim>\<open>address\<close>, \<^verbatim>\<open>chainId\<close> strings, \<^verbatim>\<open>decimals\<close> a number.\<close>

definition tokenShaped :: "jsval \<Rightarrow> bool" where
  "tokenShaped t =
     (case t of
        Obj kvs \<Rightarrow>
          isStr (field t ''symbol'') \<and> isStr (field t ''address'') \<and>
          isNum (field t ''decimals'') \<and> isStr (field t ''chainId'')
      | _ \<Rightarrow> False)"

definition tokenRecord :: "jsval \<Rightarrow> token_details" where
  "tokenRecord t =
     \<lparr> symbol = strOf (field t ''symbol''), address = strOf (field t ''address''),
       decimals = numOf (field t ''decimals''), t_chainId = strOf (field t ''chainId'') \<rparr>"

text \<open>
  The quote schema: \<^verbatim>\<open>{estimatedGas: number, route: array, expectedOutput: string,
  priceImpact: string}\<close>.
\<close>

definition quoteShaped :: "jsval \<Rightarrow> bool" where
  "quoteShaped v =
     (case v of
        Obj kvs \<Rightarrow>
          isNum (field v ''estimatedGas'') \<and> isArray (field v ''route'') \<and>
          isStr (field v ''expectedOutput'') \<and> isStr (field v ''priceImpact'')
      | _ \<Rightarrow> False)"

text \<open>The five fields of the extraction schema, all strings, all present.\<close>

definition detailsShaped :: "jsval \<Rightarrow> bool" where
  "detailsShaped v =
     (case v of
        Obj kvs \<Rightarrow>
          isStr (field v ''fromChain'') \<and> isStr (field v ''toChain'') \<and>
          isStr (field v ''amount'') \<and> isStr (field v ''fromToken'') \<and>
          isStr (field v ''toToken'')
      | _ \<Rightarrow> False)"

definition detailsRecord :: "jsval \<Rightarrow> transaction_details" where
  "detailsRecord v =
     \<lparr> fromChain = strOf (field v ''fromChain''), toChain = strOf (field v ''toChain''),
       amount = strOf (field v ''amount''), fromToken = strOf (field v ''fromToken''),
       toToken = strOf (field v ''toToken'') \<rparr>"

text \<open>
  A platform for the examples below. Its two functions agree with the JavaScript ones on
  what the examples hand them, strings of ASCII characters and integers below
  \<open>10\<^sup>2\<^sup>1\<close>: the letters \<^verbatim>\<open>A\<close> to \<^verbatim>\<open>Z\<close> are folded, an integer is printed
  as its decimal digits. No theorem below is about this platform in particular.
\<close>

definition asciiLowerChar :: "char \<Rightarrow> char" where
  "asciiLowerChar c =
     (let n = (of_char c :: nat) in if 65 \<le> n \<and> n \<le> 90 then char_of (n + 32) else c)"

definition integerDigits :: "rat \<Rightarrow> string" where
  "integerDigits r =
     (if r < 0 then CHR ''-'' # showNat (nat (- \<lfloor>r\<rfloor>)) else showNat (nat \<lfloor>r\<rfloor>))"

definition examplePlatform :: platform where
  "examplePlatform = \<lparr> toLowerCase = map asciiLowerChar, numberToString = integerDigits \<rparr>"

text \<open>
  The end-to-end scenario of the specification: the query
  \<^verbatim>\<open>Bridge 50 USDT from BSC to Polygon\<close>, a model that replies with the five parameters,
  a chain directory that lists BSC and Polygon, a token list with USDT on each of the two
  chains, and a quote endpoint that answers with a valid quote.
\<close>

definition scenarioReply :: string where
  "scenarioReply =
     ''{\"fromChain\":\"BSC\",\"toChain\":\"Polygon\",\"amount\":\"50\",\"fromToken\":\"USDT\",\"toToken\":\"USDT\"}''"

definition scenarioDirectory :: jsval where
  "scenarioDirectory =
     Obj [(''data'', Arr
       [Obj [(''chainId'', Str ''56''), (''name'', Str ''BSC''), (''type'', Str ''evm''),
             (''isLive'', Bool True), (''gasToken'', Obj [(''symbol'', Str ''BNB'')])],
        Obj [(''chainId'', Str ''137''), (''name'', Str ''Polygon''), (''type'', Str ''evm''),
             (''isLive'', Bool True), (''gasToken'', Obj [(''symbol'', Str ''POL'')])]])]"

definition scenario :: env where
  "scenario =
     \<lparr> platform = examplePlatform,
       llmInvoke = (\<lambda>msgs. Inr (Str scenarioReply)),
       jsonParse = (\<lambda>t. if t = scenarioReply
                          then Inr (Obj [(''fromChain'', Str ''BSC''), (''toChain'', Str ''Polygon''),
                                         (''amount'', Str ''50''), (''fromToken'', Str ''USDT''),
                                         (''toToken'', Str ''USDT'')])
                          else Inl (SyntaxError ''Unexpected token'')),
       chainFetch = (\<lambda>i. HttpResponse 200 ''OK'' (JsonBody scenarioDirectory)),
       tokenFetch = (\<lambda>i u.
          if u = ''https://api.nitroswap.routernitro.com/token/56''
          then HttpResponse 200 ''OK'' (JsonBody (Obj [(''data'', Arr
                 [Obj [(''symbol'', Str ''USDT''), (''address'', Str ''0x55d3''),
                       (''decimals'', Num 18), (''chainId'', Str ''56'')]])]))
          else if u = ''https://api.nitroswap.routernitro.com/token/137''
          then HttpResponse 200 ''OK'' (JsonBody (Obj [(''data'', Arr
                 [Obj [(''symbol'', Str ''USDT''), (''address'', Str ''0xc213''),
                       (''decimals'', Num 6), (''chainId'', Str ''137'')]])]))
          else HttpResponse 404 ''Not Found'' (JsonBody Null)),
       quoteFetch = (\<lambda>p. HttpResponse 200 ''OK''
          (JsonBody (Obj [(''estimatedGas'', Num 210000), (''route'', Arr []),
                          (''expectedOutput'', Str ''49.95''), (''priceImpact'', Str ''0.1'')]))),
       clock = ''2024-01-01T00:00:00.000Z'' \<rparr>"

section \<open>Properties\<close>

subsection \<open>Chain lookup never throws\<close>

lemma getChainDetails_try_success:
  "getChainDetails_try pf now resp q = Inr r \<Longrightarrow>
     success r \<and> (\<exists>ds. data r = Some ds \<and> count r = Some (length ds)) \<and>
     r_timestamp r = now \<and> source r = ''RouterNitro''"
  by (auto simp: getChainDetails_try_def andThen_def
           split: http_outcome.splits if_splits sum.splits jsval.splits)

lemma getChainDetails_total: "\<exists>r. getChainDetails pf now resp q = Inr r"
  by (simp add: getChainDetails_def split: sum.splits)

lemma getChainDetails_failure_shape:
  "getChainDetails pf now resp q = Inr r \<Longrightarrow> \<not> success r \<Longrightarrow>
     r = \<lparr> success = False, data = None, r_message = r_message r, r_timestamp = now,
           source = ''RouterNitro'', count = None \<rparr>"
  by (auto simp: getChainDetails_def split: sum.splits dest: getChainDetails_try_success)

lemma getChainDetails_try_not_ok:
  "\<not> ok status \<Longrightarrow> getChainDetails_try pf now (HttpResponse status st body) q =
     Inl (Error (''RouterNitro API error: '' @ showNat status @ '' '' @ st))"
  by (simp add: getChainDetails_try_def)

lemma getChainDetails_try_bad_data:
  "ok status \<Longrightarrow> \<not> isArray (field d ''data'') \<Longrightarrow>
     \<exists>e. getChainDetails_try pf now (HttpResponse status st (JsonBody d)) q = Inl e"
  by (cases d) (auto simp: getChainDetails_try_def andThen_def json_def field_def
           split: option.splits jsval.splits)

text \<open>
  C7. Whatever the query and whatever the fetch of the chain directory gives,
  \<^verbatim>\<open>getChainDetails\<close> resolves: to an object with \<^verbatim>\<open>success: true\<close>, or to the failure
  object \<^verbatim>\<open>{success: false, data: null, message, timestamp, source}\<close>. A rejected fetch,
  a status outside 200..299, a body that is not JSON and a \<^verbatim>\<open>data\<close> field that is
  missing or not an array all give the failure object.
\<close>

theorem getChainDetails_never_throws:
  "(\<exists>r. getChainDetails pf now resp chainQuery = Inr r \<and>
         (success r \<or>
          r = \<lparr> success = False, data = None, r_message = r_message r,
                r_timestamp = now, source = ''RouterNitro'', count = None \<rparr>)) \<and>
   (\<exists>m. getChainDetails pf now (NetworkFailure e) chainQuery =
           Inr \<lparr> success = False, data = None, r_message = m,
                 r_timestamp = now, source = ''RouterNitro'', count = None \<rparr>) \<and>
   (\<not> ok status \<longrightarrow>
      getChainDetails pf now (HttpResponse status statusText body) chainQuery =
        Inr \<lparr> success = False, data = None,
              r_message = ''RouterNitro API error: '' @ showNat status @ '' '' @ statusText,
              r_timestamp = now, source = ''RouterNitro'', count = None \<rparr>) \<and>
   (\<exists>m. getChainDetails pf now (HttpResponse status statusText (BadBody e)) chainQuery =
           Inr \<lparr> success = False, data = None, r_message = m,
                 r_timestamp = now, source = ''RouterNitro'', count = None \<rparr>) \<and>
   (ok status \<and> \<not> isArray (field d ''data'') \<longrightarrow>
      (\<exists>m. getChainDetails pf now (HttpResponse status statusText (JsonBody d)) chainQuery =
              Inr \<lparr> success = False, data = None, r_message = m,
                    r_timestamp = now, source = ''RouterNitro'', count = None \<rparr>))"
proof (intro conjI impI)
  show "\<exists>r. getChainDetails pf now resp chainQuery = Inr r \<and>
         (success r \<or>
          r = \<lparr> success = False, data = None, r_message = r_message r,
                r_timestamp = now, source = ''RouterNitro'', count = None \<rparr>)"
    using getChainDetails_total [of pf now resp chainQuery] getChainDetails_failure_shape
    by blast
next
  show "\<exists>m. getChainDetails pf now (NetworkFailure e) chainQuery =
           Inr \<lparr> success = False, data = None, r_message = m,
                 r_timestamp = now, source = ''RouterNitro'', count = None \<rparr>"
    by (simp add: getChainDetails_def getChainDetails_try_def)
next
  assume "\<not> ok status"
  then show "getChainDetails pf now (HttpResponse status statusText body) chainQuery =
        Inr \<lparr> success = False, data = None,
              r_message = ''RouterNitro API error: '' @ showNat status @ '' '' @ statusText,
              r_timestamp = now, source = ''RouterNitro'', count = None \<rparr>"
    by (simp add: getChainDetails_def getChainDetails_try_not_ok)
next
  show "\<exists>m. getChainDetails pf now (HttpResponse status statusText (BadBody e)) chainQuery =
           Inr \<lparr> success = False, data = None, r_message = m,
                 r_timestamp = now, source = ''RouterNitro'', count = None \<rparr>"
    by (simp add: getChainDetails_def getChainDetails_try_def andThen_def json_def)
next
  assume "ok status \<and> \<not> isArray (field d ''data'')"
  then obtain err where
    "getChainDetails_try pf now (HttpResponse status statusText (JsonBody d)) chainQuery = Inl err"
    using getChainDetails_try_bad_data by blast
  then show "\<exists>m. getChainDetails pf now (HttpResponse status statusText (JsonBody d)) chainQuery =
              Inr \<lparr> success = False, data = None, r_message = m,
                    r_timestamp = now, source = ''RouterNitro'', count = None \<rparr>"
    by (simp add: getChainDetails_def)
qed

lemma showNat_503: "showNat 503 = ''503''"
  by code_simp

theorem getChainDetails_never_throws_witness:
  "getChainDetails examplePlatform ''2024-01-01T00:00:00.000Z''
     (HttpResponse 503 ''Service Unavailable'' (JsonBody Null)) ''eth'' =
     Inr \<lparr> success = False, data = None,
           r_message = ''RouterNitro API error: 503 Service Unavailable'',
           r_timestamp = ''2024-01-01T00:00:00.000Z'', source = ''RouterNitro'',
           count = None \<rparr> \<and>
   (\<exists>m. getChainDetails examplePlatform ''2024-01-01T00:00:00.000Z''
           (HttpResponse 200 ''OK'' (JsonBody (Obj [(''data'', Str ''none'')]))) ''eth'' =
           Inr \<lparr> success = False, data = None, r_message = m,
                 r_timestamp = ''2024-01-01T00:00:00.000Z'', source = ''RouterNitro'',
                 count = None \<rparr>)"
proof -
  have a: "\<not> ok 503"
    by (simp add: ok_def)
  have b: "ok 200 \<and> \<not> isArray (field (Obj [(''data'', Str ''none'')]) ''data'')"
    by (simp add: ok_def field_def)
  from a getChainDetails_never_throws
         [of examplePlatform "''2024-01-01T00:00:00.000Z''" "NetworkFailure Thrown" "''eth''" Thrown 503
             "''Service Unavailable''" "JsonBody Null" Null]
  have first: "getChainDetails examplePlatform ''2024-01-01T00:00:00.000Z''
     (HttpResponse 503 ''Service Unavailable'' (JsonBody Null)) ''eth'' =
     Inr \<lparr> success = False, data = None,
           r_message = ''RouterNitro API error: 503 Service Unavailable'',
           r_timestamp = ''2024-01-01T00:00:00.000Z'', source = ''RouterNitro'',
           count = None \<rparr>"
    by (simp add: showNat_503)
  from b getChainDetails_never_throws
         [of examplePlatform "''2024-01-01T00:00:00.000Z''" "NetworkFailure Thrown" "''eth''" Thrown 200
             "''OK''" "JsonBody Null" "Obj [(''data'', Str ''none'')]"]
  have second: "\<exists>m. getChainDetails examplePlatform ''2024-01-01T00:00:00.000Z''
           (HttpResponse 200 ''OK'' (JsonBody (Obj [(''data'', Str ''none'')]))) ''eth'' =
           Inr \<lparr> success = False, data = None, r_message = m,
                 r_timestamp = ''2024-01-01T00:00:00.000Z'', source = ''RouterNitro'',
                 count = None \<rparr>"
    by blast
  from first second show ?thesis by blast
qed

subsection \<open>Quote lookup\<close>

lemma QuoteResponseSchema_parse_shaped:
  "(\<exists>r. QuoteResponseSchema_parse v = Inr r) = quoteShaped v"
  by (cases v)
     (auto simp: QuoteResponseSchema_parse_def quoteShaped_def split: jsval.splits)

lemma QuoteResponseSchema_parse_fails:
  "\<not> quoteShaped v \<Longrightarrow> \<exists>e. QuoteResponseSchema_parse v = Inl e"
  using QuoteResponseSchema_parse_shaped [of v] by (cases "QuoteResponseSchema_parse v") auto

lemma getTransactionDetails_total: "\<exists>r. getTransactionDetails quoteApi params = Inr r"
  by (simp add: getTransactionDetails_def split: sum.splits)

lemma getTransactionDetails_caught:
  "getTransactionDetails_try quoteApi params = Inl e \<Longrightarrow>
     getTransactionDetails quoteApi params = Inr None"
  by (simp add: getTransactionDetails_def)

lemma quote_missing_priceImpact:
  "map_of kvs ''priceImpact'' = None \<Longrightarrow> \<not> quoteShaped (Obj kvs)"
  by (simp add: quoteShaped_def field_def)

text \<open>
  C5. The quote lookup never throws, and it resolves to \<^verbatim>\<open>null\<close> whenever the request
  is rejected, the status is outside 200..299, the body is not JSON, or the body does not
  conform to \<^verbatim>\<open>{estimatedGas: number, route: array, expectedOutput: string,
  priceImpact: string}\<close>; in particular when \<^verbatim>\<open>priceImpact\<close> is missing.
\<close>

theorem getTransactionDetails_null_on_failure:
  "(\<exists>r. getTransactionDetails quoteApi params = Inr r) \<and>
   (quoteApi params = NetworkFailure e \<longrightarrow>
      getTransactionDetails quoteApi params = Inr None) \<and>
   (quoteApi params = HttpResponse status statusText body \<and> \<not> ok status \<longrightarrow>
      getTransactionDetails quoteApi params = Inr None) \<and>
   (quoteApi params = HttpResponse status statusText (BadBody e) \<longrightarrow>
      getTransactionDetails quoteApi params = Inr None) \<and>
   (quoteApi params = HttpResponse status statusText (JsonBody d) \<and> \<not> quoteShaped d \<longrightarrow>
      getTransactionDetails quoteApi params = Inr None) \<and>
   (quoteApi params = HttpResponse status statusText (JsonBody (Obj kvs)) \<and>
    map_of kvs ''priceImpact'' = None \<longrightarrow>
      getTransactionDetails quoteApi params = Inr None)"
proof (intro conjI impI)
  show "\<exists>r. getTransactionDetails quoteApi params = Inr r"
    by (rule getTransactionDetails_total)
next
  assume "quoteApi params = NetworkFailure e"
  then show "getTransactionDetails quoteApi params = Inr None"
    by (simp add: getTransactionDetails_def getTransactionDetails_try_def)
next
  assume "quoteApi params = HttpResponse status statusText body \<and> \<not> ok status"
  then show "getTransactionDetails quoteApi params = Inr None"
    by (simp add: getTransactionDetails_def getTransactionDetails_try_def)
next
  assume "quoteApi params = HttpResponse status statusText (BadBody e)"
  then show "getTransactionDetails quoteApi params = Inr None"
    by (simp add: getTransactionDetails_def getTransactionDetails_try_def andThen_def json_def)
next
  assume a: "quoteApi params = HttpResponse status statusText (JsonBody d) \<and> \<not> quoteShaped d"
  then obtain err where "QuoteResponseSchema_parse d = Inl err"
    using QuoteResponseSchema_parse_fails by blast
  with a show "getTransactionDetails quoteApi params = Inr None"
    by (simp add: getTransactionDetails_def getTransactionDetails_try_def andThen_def json_def)
next
  assume a: "quoteApi params = HttpResponse status statusText (JsonBody (Obj kvs)) \<and>
    map_of kvs ''priceImpact'' = None"
  then obtain err where "QuoteResponseSchema_parse (Obj kvs) = Inl err"
    using QuoteResponseSchema_parse_fails quote_missing_priceImpact by blast
  with a show "getTransactionDetails quoteApi params = Inr None"
    by (simp add: getTransactionDetails_def getTransactionDetails_try_def andThen_def json_def)
qed

lemma getTransactionDetails_valid:
  "quoteApi params = HttpResponse status statusText (JsonBody d) \<Longrightarrow> ok status \<Longrightarrow>
   QuoteResponseSchema_parse d = Inr r \<Longrightarrow> getTransactionDetails quoteApi params = Inr (Some r)"
  by (simp add: getTransactionDetails_def getTransactionDetails_try_def andThen_def json_def)

theorem getTransactionDetails_null_on_failure_witness:
  "getTransactionDetails
     (\<lambda>p. HttpResponse 200 ''OK''
        (JsonBody (Obj [(''estimatedGas'', Num 21000), (''route'', Arr []),
                        (''expectedOutput'', Str ''49.9'')])))
     \<lparr> fromChainId = Str ''56'', toChainId = Str ''137'', fromTokenAddress = ''0x55'',
       toTokenAddress = ''0xc2'', p_amount = ''50'' \<rparr> = Inr None \<and>
   getTransactionDetails
     (\<lambda>p. HttpResponse 429 ''Too Many Requests'' (JsonBody Null))
     \<lparr> fromChainId = Str ''56'', toChainId = Str ''137'', fromTokenAddress = ''0x55'',
       toTokenAddress = ''0xc2'', p_amount = ''50'' \<rparr> = Inr None \<and>
   getTransactionDetails
     (\<lambda>p. NetworkFailure (FetchError ''ECONNREFUSED''))
     \<lparr> fromChainId = Str ''56'', toChainId = Str ''137'', fromTokenAddress = ''0x55'',
       toTokenAddress = ''0xc2'', p_amount = ''50'' \<rparr> = Inr None"
proof -
  have nok: "\<not> ok 429"
    by (simp add: ok_def)
  have "getTransactionDetails
     (\<lambda>p. HttpResponse 200 ''OK''
        (JsonBody (Obj [(''estimatedGas'', Num 21000), (''route'', Arr []),
                        (''expectedOutput'', Str ''49.9'')])))
     \<lparr> fromChainId = Str ''56'', toChainId = Str ''137'', fromTokenAddress = ''0x55'',
       toTokenAddress = ''0xc2'', p_amount = ''50'' \<rparr> = Inr None"
    using getTransactionDetails_null_on_failure
      [of "\<lambda>p. HttpResponse 200 ''OK''
          (JsonBody (Obj [(''estimatedGas'', Num 21000), (''route'', Arr []),
                          (''expectedOutput'', Str ''49.9'')]))"
          "\<lparr> fromChainId = Str ''56'', toChainId = Str ''137'', fromTokenAddress = ''0x55'',
             toTokenAddress = ''0xc2'', p_amount = ''50'' \<rparr>"
          Thrown 200 "''OK''" "JsonBody Null" Null
          "[(''estimatedGas'', Num 21000), (''route'', Arr []),
            (''expectedOutput'', Str ''49.9'')]"]
    by simp
  moreover have "getTransactionDetails
     (\<lambda>p. HttpResponse 429 ''Too Many Requests'' (JsonBody Null))
     \<lparr> fromChainId = Str ''56'', toChainId = Str ''137'', fromTokenAddress = ''0x55'',
       toTokenAddress = ''0xc2'', p_amount = ''50'' \<rparr> = Inr None"
    using nok getTransactionDetails_null_on_failure
      [of "\<lambda>p. HttpResponse 429 ''Too Many Requests'' (JsonBody Null)"
          "\<lparr> fromChainId = Str ''56'', toChainId = Str ''137'', fromTokenAddress = ''0x55'',
             toTokenAddress = ''0xc2'', p_amount = ''50'' \<rparr>"
          Thrown 429 "''Too Many Requests''" "JsonBody Null" Null "[]"]
    by simp
  moreover have "getTransactionDetails
     (\<lambda>p. NetworkFailure (FetchError ''ECONNREFUSED''))
     \<lparr> fromChainId = Str ''56'', toChainId = Str ''137'', fromTokenAddress = ''0x55'',
       toTokenAddress = ''0xc2'', p_amount = ''50'' \<rparr> = Inr None"
    using getTransactionDetails_null_on_failure
      [of "\<lambda>p. NetworkFailure (FetchError ''ECONNREFUSED'')"
          "\<lparr> fromChainId = Str ''56'', toChainId = Str ''137'', fromTokenAddress = ''0x55'',
             toTokenAddress = ''0xc2'', p_amount = ''50'' \<rparr>"
          "FetchError ''ECONNREFUSED''" 0 "[]" "JsonBody Null" Null "[]"]
    by simp
  ultimately show ?thesis by blast
qed

subsection \<open>Token lookup\<close>


lemma TokenDetailsSchema_parse_Inr:
  "TokenDetailsSchema_parse t = Inr r \<longleftrightarrow> tokenShaped t \<and> r = tokenRecord t"
  by (cases t)
     (auto simp: TokenDetailsSchema_parse_def tokenShaped_def tokenRecord_def
           split: jsval.splits)

lemma TokenDetailsSchema_parse_fails:
  "\<not> tokenShaped t \<Longrightarrow> \<exists>e. TokenDetailsSchema_parse t = Inl e"
  using TokenDetailsSchema_parse_Inr [of t] by (cases "TokenDetailsSchema_parse t") auto

lemma symbolMatches_True: "symbolMatches pf s t = Inr True \<longleftrightarrow> symbolIs pf s t"
  by (cases t)
     (auto simp: symbolMatches_def symbolIs_def andThen_def field_def
           split: jsval.splits option.splits)





lemma findE_Some:
  "findE p xs = Inr (Some x) \<Longrightarrow> x \<in> set xs \<and> p x = Inr True"
  by (induction xs) (auto split: sum.splits if_splits)

lemma findE_first:
  "\<forall>x\<in>set pre. p x \<noteq> Inr True \<Longrightarrow> p t = Inr True \<Longrightarrow>
     findE p (pre @ t # post) = Inr (Some t) \<or> (\<exists>e. findE p (pre @ t # post) = Inl e)"
  by (induction pre) (auto split: sum.splits)

lemma getProp_field: "field d k = Arr xs \<Longrightarrow> getProp d k = Inr (Arr xs)"
  by (cases d) (auto simp: field_def split: option.splits)





lemma pickToken_Some:
  assumes "pickToken pf tokenSymbol d = Inr (Some r)"
  shows "\<exists>t. tokenShaped t \<and> symbolIs pf tokenSymbol t \<and> r = tokenRecord t"
proof -
  obtain dd where dd: "getProp d ''data'' = Inr dd"
    using assms by (cases "getProp d ''data''") (simp_all add: pickToken_def andThen_def)
  obtain tokens where tk: "orElse dd (Arr []) = Arr tokens"
    using assms dd by (cases "orElse dd (Arr [])") (simp_all add: pickToken_def andThen_def)
  obtain tok where f: "findE (symbolMatches pf tokenSymbol) tokens = Inr tok"
    using assms dd tk
    by (cases "findE (symbolMatches pf tokenSymbol) tokens")
       (simp_all add: pickToken_def andThen_def)
  obtain t where t: "tok = Some t"
    using assms dd tk f by (cases tok) (simp_all add: pickToken_def andThen_def)
  have p: "TokenDetailsSchema_parse t = Inr r"
    using assms dd tk f t
    by (cases "TokenDetailsSchema_parse t")
       (simp_all add: pickToken_def andThen_def split: if_splits)
  from f t have "symbolMatches pf tokenSymbol t = Inr True"
    by (auto dest: findE_Some)
  then have "symbolIs pf tokenSymbol t"
    by (simp add: symbolMatches_True)
  with p show ?thesis
    by (auto simp: TokenDetailsSchema_parse_Inr)
qed

lemma pickToken_first_invalid:
  assumes "field d ''data'' = Arr (pre @ t # post)"
    and "\<forall>p\<in>set pre. \<not> symbolIs pf tokenSymbol p" and "symbolIs pf tokenSymbol t"
    and "\<not> tokenShaped t"
  shows "pickToken pf tokenSymbol d = Inr None \<or> (\<exists>e. pickToken pf tokenSymbol d = Inl e)"
proof -
  from assms(4) obtain err where perr: "TokenDetailsSchema_parse t = Inl err"
    using TokenDetailsSchema_parse_fails by blast
  from assms(2,3) have
    "findE (symbolMatches pf tokenSymbol) (pre @ t # post) = Inr (Some t) \<or>
     (\<exists>e. findE (symbolMatches pf tokenSymbol) (pre @ t # post) = Inl e)"
    by (intro findE_first) (auto simp: symbolMatches_True)
  with assms(1) perr show ?thesis
    by (auto simp: pickToken_def getProp_field andThen_def orElse_def)
qed

lemma getTokenDetails_try_body:
  "tokenApi (''https://api.nitroswap.routernitro.com/token/'' @ cid) =
     HttpResponse status statusText (JsonBody d) \<Longrightarrow> ok status \<Longrightarrow>
   getTokenDetails_try pf tokenApi (Str cid) tokenSymbol = pickToken pf tokenSymbol d"
  by (simp add: getTokenDetails_try_def andThen_def json_def)

lemma getTokenDetails_try_Inr:
  "getTokenDetails_try pf tokenApi chainId tokenSymbol = Inr x \<Longrightarrow>
     \<exists>d. pickToken pf tokenSymbol d = Inr x"
  by (auto simp: getTokenDetails_try_def andThen_def json_def
           split: sum.splits http_outcome.splits if_splits http_body.splits)









text \<open>
  C10. A record the token lookup returns is the validated form of a token that conforms to
  the schema and whose symbol matches; and when the first token whose symbol matches does
  not conform, the lookup resolves to \<^verbatim>\<open>null\<close>.
\<close>

theorem getTokenDetails_validated:
  "(getTokenDetails pf tokenApi chainId tokenSymbol = Inr (Some r) \<longrightarrow>
      (\<exists>t. tokenShaped t \<and> symbolIs pf tokenSymbol t \<and> r = tokenRecord t)) \<and>
   (tokenApi (''https://api.nitroswap.routernitro.com/token/'' @ cid) =
      HttpResponse status statusText (JsonBody d) \<and>
    field d ''data'' = Arr (pre @ t # post) \<and> (\<forall>p\<in>set pre. \<not> symbolIs pf tokenSymbol p) \<and>
    symbolIs pf tokenSymbol t \<and> \<not> tokenShaped t \<longrightarrow>
      getTokenDetails pf tokenApi (Str cid) tokenSymbol = Inr None)"
proof (intro conjI impI)
  assume "getTokenDetails pf tokenApi chainId tokenSymbol = Inr (Some r)"
  then have "getTokenDetails_try pf tokenApi chainId tokenSymbol = Inr (Some r)"
    by (simp add: getTokenDetails_def split: sum.splits)
  then obtain d' where "pickToken pf tokenSymbol d' = Inr (Some r)"
    using getTokenDetails_try_Inr by blast
  then show "\<exists>t. tokenShaped t \<and> symbolIs pf tokenSymbol t \<and> r = tokenRecord t"
    by (rule pickToken_Some)
next
  assume a: "tokenApi (''https://api.nitroswap.routernitro.com/token/'' @ cid) =
      HttpResponse status statusText (JsonBody d) \<and>
    field d ''data'' = Arr (pre @ t # post) \<and> (\<forall>p\<in>set pre. \<not> symbolIs pf tokenSymbol p) \<and>
    symbolIs pf tokenSymbol t \<and> \<not> tokenShaped t"
  then have pk: "pickToken pf tokenSymbol d = Inr None \<or> (\<exists>e. pickToken pf tokenSymbol d = Inl e)"
    by (intro pickToken_first_invalid) auto
  show "getTokenDetails pf tokenApi (Str cid) tokenSymbol = Inr None"
  proof (cases "ok status")
    case True
    with a have "getTokenDetails_try pf tokenApi (Str cid) tokenSymbol = pickToken pf tokenSymbol d"
      by (intro getTokenDetails_try_body) auto
    with pk show ?thesis
      by (auto simp: getTokenDetails_def)
  next
    case False
    with a show ?thesis
      by (simp add: getTokenDetails_def getTokenDetails_try_def andThen_def)
  qed
qed

lemma symbolIs_eth_example:
  "symbolIs examplePlatform ''eth'' (Obj [(''symbol'', Str ''ETH''), (''address'', Str ''0xeeee''),
                          (''decimals'', Str ''18''), (''chainId'', Str ''1'')])"
  by code_simp

theorem getTokenDetails_validated_witness:
  "getTokenDetails examplePlatform
     (\<lambda>u. HttpResponse 200 ''OK'' (JsonBody (Obj [(''data'', Arr
        [Obj [(''symbol'', Str ''ETH''), (''address'', Str ''0xeeee''),
              (''decimals'', Str ''18''), (''chainId'', Str ''1'')]])])))
     (Str ''1'') ''eth'' = Inr None"
proof -
  have ns: "\<not> tokenShaped (Obj [(''symbol'', Str ''ETH''), (''address'', Str ''0xeeee''),
                                 (''decimals'', Str ''18''), (''chainId'', Str ''1'')])"
    by (simp add: tokenShaped_def field_def)
  have fld: "field (Obj [(''data'', Arr
        [Obj [(''symbol'', Str ''ETH''), (''address'', Str ''0xeeee''),
              (''decimals'', Str ''18''), (''chainId'', Str ''1'')]])]) ''data'' =
     Arr ([] @ Obj [(''symbol'', Str ''ETH''), (''address'', Str ''0xeeee''),
              (''decimals'', Str ''18''), (''chainId'', Str ''1'')] # [])"
    by (simp add: field_def)
  from getTokenDetails_validated
    [of examplePlatform "\<lambda>u. HttpResponse 200 ''OK'' (JsonBody (Obj [(''data'', Arr
        [Obj [(''symbol'', Str ''ETH''), (''address'', Str ''0xeeee''),
              (''decimals'', Str ''18''), (''chainId'', Str ''1'')]])]))"
        "Str ''1''" "''eth''" _ "''1''" 200 "''OK''"
        "Obj [(''data'', Arr
        [Obj [(''symbol'', Str ''ETH''), (''address'', Str ''0xeeee''),
              (''decimals'', Str ''18''), (''chainId'', Str ''1'')]])]"
        "[]" "Obj [(''symbol'', Str ''ETH''), (''address'', Str ''0xeeee''),
              (''decimals'', Str ''18''), (''chainId'', Str ''1'')]" "[]"]
    ns fld symbolIs_eth_example
  show ?thesis by simp
qed

subsection \<open>Chain lookup on a well-formed response\<close>

lemma str_includes_sublist: "str_includes s t = sublist t s"
  by (induction s) (auto simp: sublist_Cons_right)

lemma getProp_Obj: "getProp (Obj kvs) k = Inr (field (Obj kvs) k)"
  by (simp add: field_def)

lemma lowerIncludes_optString:
  "optString v \<Longrightarrow> lowerIncludes pf v (toLowerCase pf q) = Inr (ciContains pf v q)"
  by (cases v) (auto simp: optString_def ciContains_def str_includes_sublist)

lemma gasToken_symbol:
  assumes "wellFormedChain (Obj kvs)"
  shows "andThen (getPropOpt (field (Obj kvs) ''gasToken'') ''symbol'')
           (\<lambda>s. lowerIncludes pf s (toLowerCase pf q)) =
         Inr (ciContains pf (field (field (Obj kvs) ''gasToken'') ''symbol'') q)"
proof (cases "field (Obj kvs) ''gasToken''")
  case (Obj g)
  with assms have "optString (field (Obj g) ''symbol'')"
    by (simp add: wellFormedChain_def)
  with Obj show ?thesis
    by (simp add: getPropOpt_def getProp_Obj andThen_def lowerIncludes_optString
          del: getProp.simps)
qed (use assms in \<open>auto simp: wellFormedChain_def getPropOpt_def andThen_def field_def
        ciContains_def\<close>)

lemma chainMatches_wellFormed:
  assumes "wellFormedChain c"
  shows "chainMatches pf (toLowerCase pf q) c = Inr (matchesQuery pf q c)"
proof -
  from assms obtain kvs where c: "c = Obj kvs"
    by (cases c) (auto simp: wellFormedChain_def)
  from assms c have o: "optString (field (Obj kvs) ''name'')"
      "optString (field (Obj kvs) ''chainId'')" "optString (field (Obj kvs) ''type'')"
    by (auto simp: wellFormedChain_def)
  from assms c have g: "andThen (getPropOpt (field (Obj kvs) ''gasToken'') ''symbol'')
           (\<lambda>s. lowerIncludes pf s (toLowerCase pf q)) =
         Inr (ciContains pf (field (field (Obj kvs) ''gasToken'') ''symbol'') q)"
    by (intro gasToken_symbol) simp
  show ?thesis
    unfolding c chainMatches_def getProp_Obj matchesQuery_def
    by (simp add: andThen_def lowerIncludes_optString o g [unfolded andThen_def])
qed

lemma filterE_pure:
  "\<forall>x\<in>set xs. p x = Inr (q x) \<Longrightarrow> filterE p xs = Inr (filter q xs)"
  by (induction xs) auto

lemma mapE_pure: "\<forall>x\<in>set xs. f x = Inr (g x) \<Longrightarrow> mapE f xs = Inr (map g xs)"
  by (induction xs) auto

lemma orElse_withDefault: "orElse src dflt = withDefault src dflt"
  by (cases src) (auto simp: orElse_def withDefault_def)

lemma defaulted_withDefault: "defaulted src dflt (withDefault src dflt)"
  by (cases src) (auto simp: defaulted_def withDefault_def)

lemma reshaped_reshape: "reshaped c (reshape now c)"
  by (simp add: reshaped_def reshape_def defaulted_withDefault)

lemma toStr_optString: "optString v \<Longrightarrow> toStr pf v = Inr (chainIdText v)"
  by (cases v) (auto simp: optString_def chainIdText_def)

lemma processChain_wellFormed:
  assumes "wellFormedChain c"
  shows "processChain pf now c = Inr (reshape now c)"
proof -
  from assms obtain kvs where c: "c = Obj kvs"
    by (cases c) (auto simp: wellFormedChain_def)
  from assms c have s: "toStr pf (field (Obj kvs) ''chainId'') =
      Inr (chainIdText (field (Obj kvs) ''chainId''))"
    by (intro toStr_optString) (simp add: wellFormedChain_def)
  show ?thesis
    unfolding c processChain_def getProp_Obj
    by (simp add: andThen_def s reshape_def orElse_withDefault)
qed

lemma getChainDetails_try_wellFormed:
  assumes "ok status" and "field d ''data'' = Arr fetched"
    and "\<forall>c\<in>set fetched. wellFormedChain c"
  shows "getChainDetails_try pf now (HttpResponse status statusText (JsonBody d)) chainQuery =
            Inr \<lparr> success = True, data = Some (map (reshape now) (filter (matchesQuery pf chainQuery) fetched)),
                 r_message =
                   (if filter (matchesQuery pf chainQuery) fetched = []
                    then ''No matching chains found''
                    else ''Found '' @ showNat (length (filter (matchesQuery pf chainQuery) fetched)) @
                         '' matching chains''),
                 r_timestamp = now, source = ''RouterNitro'',
                 count = Some (length (filter (matchesQuery pf chainQuery) fetched)) \<rparr>"
proof -
  from assms(2) have gp: "getProp d ''data'' = Inr (Arr fetched)"
    by (rule getProp_field)
  from assms(3) have flt: "filterE (chainMatches pf (toLowerCase pf chainQuery)) fetched =
      Inr (filter (matchesQuery pf chainQuery) fetched)"
    by (intro filterE_pure) (simp add: chainMatches_wellFormed)
  from assms(3) have mp:
    "mapE (processChain pf now) (filter (matchesQuery pf chainQuery) fetched) =
       Inr (map (reshape now) (filter (matchesQuery pf chainQuery) fetched))"
    by (intro mapE_pure) (simp add: processChain_wellFormed)
  from assms(1) gp flt mp show ?thesis
    by (simp add: getChainDetails_try_def andThen_def json_def)
qed

lemma getChainDetails_folded:
  assumes "toLowerCase pf q = toLowerCase pf q'"
  shows "getChainDetails pf now resp q = getChainDetails pf now resp q'"
  unfolding getChainDetails_def getChainDetails_try_def
  by (subst assms) (rule refl)

text \<open>
  C2. On a well-formed directory response (status 2xx, a body whose \<^verbatim>\<open>data\<close> is a list of
  well-formed chains) the chain lookup resolves to \<^verbatim>\<open>success: true\<close> with, in \<^verbatim>\<open>data\<close>,
  the reshaped record of each fetched chain whose \<^verbatim>\<open>name\<close>, \<^verbatim>\<open>chainId\<close>, \<^verbatim>\<open>type\<close> or
  \<^verbatim>\<open>gasToken.symbol\<close> contains the query letter case aside, once each, in the order
  fetched, and of no other chain; \<^verbatim>\<open>count\<close> is their number. In the record an absent
  field has its default (\<^verbatim>\<open>"Unknown"\<close>, \<^verbatim>\<open>false\<close>, \<^verbatim>\<open>{}\<close>, \<^verbatim>\<open>null\<close>) and a field with a
  value keeps it. When no chain matches, the result is \<^verbatim>\<open>data: []\<close>, \<^verbatim>\<open>count: 0\<close> and the
  message \<^verbatim>\<open>No matching chains found\<close>. Two queries that differ in letter case only give
  the same result.
\<close>

theorem getChainDetails_matching_chains:
  assumes "ok status" and "field d ''data'' = Arr fetched"
    and "\<forall>c\<in>set fetched. wellFormedChain c"
  shows "getChainDetails pf now (HttpResponse status statusText (JsonBody d)) chainQuery =
           Inr \<lparr> success = True, data = Some (map (reshape now) (filter (matchesQuery pf chainQuery) fetched)),
                 r_message =
                   (if filter (matchesQuery pf chainQuery) fetched = []
                    then ''No matching chains found''
                    else ''Found '' @ showNat (length (filter (matchesQuery pf chainQuery) fetched)) @
                         '' matching chains''),
                 r_timestamp = now, source = ''RouterNitro'',
                 count = Some (length (filter (matchesQuery pf chainQuery) fetched)) \<rparr> \<and>
         (\<forall>c. reshaped c (reshape now c)) \<and>
         (filter (matchesQuery pf chainQuery) fetched = [] \<longrightarrow>
            getChainDetails pf now (HttpResponse status statusText (JsonBody d)) chainQuery =
              Inr \<lparr> success = True, data = Some [], r_message = ''No matching chains found'',
                    r_timestamp = now, source = ''RouterNitro'', count = Some 0 \<rparr>) \<and>
         (\<forall>q'. toLowerCase pf q' = toLowerCase pf chainQuery \<longrightarrow>
            getChainDetails pf now (HttpResponse status statusText (JsonBody d)) q' =
            getChainDetails pf now (HttpResponse status statusText (JsonBody d)) chainQuery)"
proof -
  have g: "getChainDetails pf now (HttpResponse status statusText (JsonBody d)) chainQuery =
           Inr \<lparr> success = True, data = Some (map (reshape now) (filter (matchesQuery pf chainQuery) fetched)),
                 r_message =
                   (if filter (matchesQuery pf chainQuery) fetched = []
                    then ''No matching chains found''
                    else ''Found '' @ showNat (length (filter (matchesQuery pf chainQuery) fetched)) @
                         '' matching chains''),
                 r_timestamp = now, source = ''RouterNitro'',
                 count = Some (length (filter (matchesQuery pf chainQuery) fetched)) \<rparr>"
    using getChainDetails_try_wellFormed [OF assms, of pf now statusText chainQuery]
    by (simp add: getChainDetails_def)
  have e: "filter (matchesQuery pf chainQuery) fetched = [] \<longrightarrow>
            getChainDetails pf now (HttpResponse status statusText (JsonBody d)) chainQuery =
              Inr \<lparr> success = True, data = Some [], r_message = ''No matching chains found'',
                    r_timestamp = now, source = ''RouterNitro'', count = Some 0 \<rparr>"
    using g by simp
  have f: "\<forall>q'. toLowerCase pf q' = toLowerCase pf chainQuery \<longrightarrow>
            getChainDetails pf now (HttpResponse status statusText (JsonBody d)) q' =
            getChainDetails pf now (HttpResponse status statusText (JsonBody d)) chainQuery"
    by (auto intro: getChainDetails_folded)
  from g e f reshaped_reshape show ?thesis by blast
qed

lemma example_chains_wellFormed:
  "\<forall>c\<in>set [Obj [(''name'', Str ''Ethereum''), (''chainId'', Str ''1''), (''type'', Str ''evm''),
            (''gasToken'', Obj [(''symbol'', Str ''ETH'')])],
       Obj [(''name'', Str ''Polygon''), (''chainId'', Str ''137''), (''isLive'', Bool True),
            (''isRefuelEnabled'', Bool False)]]. wellFormedChain c"
  by (simp add: wellFormedChain_def field_def optString_def)

lemma example_chains_poly:
  "filter (matchesQuery examplePlatform ''POLY'') [Obj [(''name'', Str ''Ethereum''), (''chainId'', Str ''1''), (''type'', Str ''evm''),
            (''gasToken'', Obj [(''symbol'', Str ''ETH'')])],
       Obj [(''name'', Str ''Polygon''), (''chainId'', Str ''137''), (''isLive'', Bool True),
            (''isRefuelEnabled'', Bool False)]] =
     [Obj [(''name'', Str ''Polygon''), (''chainId'', Str ''137''), (''isLive'', Bool True),
            (''isRefuelEnabled'', Bool False)]]"
  by code_simp

lemma example_chains_solana:
  "filter (matchesQuery examplePlatform ''solana'') [Obj [(''name'', Str ''Ethereum''), (''chainId'', Str ''1''), (''type'', Str ''evm''),
            (''gasToken'', Obj [(''symbol'', Str ''ETH'')])],
       Obj [(''name'', Str ''Polygon''), (''chainId'', Str ''137''), (''isLive'', Bool True),
            (''isRefuelEnabled'', Bool False)]] = []"
  by code_simp

lemma example_reshape_polygon:
  "reshape ''2024-01-01T00:00:00.000Z''
     (Obj [(''name'', Str ''Polygon''), (''chainId'', Str ''137''), (''isLive'', Bool True),
            (''isRefuelEnabled'', Bool False)]) =
   \<lparr> chain = \<lparr> c_name = Str ''Polygon'', c_chainId = Str ''137'',
                         c_type = Str ''Unknown'', c_isLive = Bool True \<rparr>,
              gas = \<lparr> g_token = Null, g_limits = Obj [] \<rparr>,
              features = \<lparr> f_isIntentApiSupported = Bool False,
                            f_isRefuelEnabled = Bool False,
                            f_isQREnabled = Bool False \<rparr>,
              metadata = \<lparr> m_createdAt = Null, m_updatedAt = Null \<rparr>,
              url = ''https://routernitro.com/chain/137'',
              q_timestamp = ''2024-01-01T00:00:00.000Z'' \<rparr>"
  by (simp add: reshape_def field_def withDefault_def chainIdText_def)

lemma showNat_1: "showNat (Suc 0) = ''1''"
  by code_simp

theorem getChainDetails_matching_chains_witness:
  "getChainDetails examplePlatform ''2024-01-01T00:00:00.000Z''
     (HttpResponse 200 ''OK'' (JsonBody (Obj [(''data'', Arr
      [Obj [(''name'', Str ''Ethereum''), (''chainId'', Str ''1''), (''type'', Str ''evm''),
            (''gasToken'', Obj [(''symbol'', Str ''ETH'')])],
       Obj [(''name'', Str ''Polygon''), (''chainId'', Str ''137''), (''isLive'', Bool True),
            (''isRefuelEnabled'', Bool False)]])]))) ''POLY'' =
     Inr \<lparr> success = True,
           data = Some [\<lparr> chain = \<lparr> c_name = Str ''Polygon'', c_chainId = Str ''137'',
                         c_type = Str ''Unknown'', c_isLive = Bool True \<rparr>,
              gas = \<lparr> g_token = Null, g_limits = Obj [] \<rparr>,
              features = \<lparr> f_isIntentApiSupported = Bool False,
                            f_isRefuelEnabled = Bool False,
                            f_isQREnabled = Bool False \<rparr>,
              metadata = \<lparr> m_createdAt = Null, m_updatedAt = Null \<rparr>,
              url = ''https://routernitro.com/chain/137'',
              q_timestamp = ''2024-01-01T00:00:00.000Z'' \<rparr>],
           r_message = ''Found 1 matching chains'',
           r_timestamp = ''2024-01-01T00:00:00.000Z'', source = ''RouterNitro'',
           count = Some 1 \<rparr> \<and>
   getChainDetails examplePlatform ''2024-01-01T00:00:00.000Z''
     (HttpResponse 200 ''OK'' (JsonBody (Obj [(''data'', Arr
      [Obj [(''name'', Str ''Ethereum''), (''chainId'', Str ''1''), (''type'', Str ''evm''),
            (''gasToken'', Obj [(''symbol'', Str ''ETH'')])],
       Obj [(''name'', Str ''Polygon''), (''chainId'', Str ''137''), (''isLive'', Bool True),
            (''isRefuelEnabled'', Bool False)]])]))) ''solana'' =
     Inr \<lparr> success = True, data = Some [], r_message = ''No matching chains found'',
           r_timestamp = ''2024-01-01T00:00:00.000Z'', source = ''RouterNitro'',
           count = Some 0 \<rparr>"
proof -
  have okay: "ok 200"
    by (simp add: ok_def)
  have fld: "field (Obj [(''data'', Arr
      [Obj [(''name'', Str ''Ethereum''), (''chainId'', Str ''1''), (''type'', Str ''evm''),
            (''gasToken'', Obj [(''symbol'', Str ''ETH'')])],
       Obj [(''name'', Str ''Polygon''), (''chainId'', Str ''137''), (''isLive'', Bool True),
            (''isRefuelEnabled'', Bool False)]])]) ''data'' = Arr [Obj [(''name'', Str ''Ethereum''), (''chainId'', Str ''1''), (''type'', Str ''evm''),
            (''gasToken'', Obj [(''symbol'', Str ''ETH'')])],
       Obj [(''name'', Str ''Polygon''), (''chainId'', Str ''137''), (''isLive'', Bool True),
            (''isRefuelEnabled'', Bool False)]]"
    by (simp add: field_def)
  note inst = getChainDetails_matching_chains [OF okay fld example_chains_wellFormed]
  have one: "getChainDetails examplePlatform ''2024-01-01T00:00:00.000Z''
     (HttpResponse 200 ''OK'' (JsonBody (Obj [(''data'', Arr
      [Obj [(''name'', Str ''Ethereum''), (''chainId'', Str ''1''), (''type'', Str ''evm''),
            (''gasToken'', Obj [(''symbol'', Str ''ETH'')])],
       Obj [(''name'', Str ''Polygon''), (''chainId'', Str ''137''), (''isLive'', Bool True),
            (''isRefuelEnabled'', Bool False)]])]))) ''POLY'' =
     Inr \<lparr> success = True,
           data = Some [\<lparr> chain = \<lparr> c_name = Str ''Polygon'', c_chainId = Str ''137'',
                         c_type = Str ''Unknown'', c_isLive = Bool True \<rparr>,
              gas = \<lparr> g_token = Null, g_limits = Obj [] \<rparr>,
              features = \<lparr> f_isIntentApiSupported = Bool False,
                            f_isRefuelEnabled = Bool False,
                            f_isQREnabled = Bool False \<rparr>,
              metadata = \<lparr> m_createdAt = Null, m_updatedAt = Null \<rparr>,
              url = ''https://routernitro.com/chain/137'',
              q_timestamp = ''2024-01-01T00:00:00.000Z'' \<rparr>],
           r_message = ''Found 1 matching chains'',
           r_timestamp = ''2024-01-01T00:00:00.000Z'', source = ''RouterNitro'',
           count = Some 1 \<rparr>"
    using inst [of examplePlatform "''2024-01-01T00:00:00.000Z''" "''OK''" "''POLY''",
        unfolded example_chains_poly]
    by (simp add: example_reshape_polygon showNat_1)
  have two: "getChainDetails examplePlatform ''2024-01-01T00:00:00.000Z''
     (HttpResponse 200 ''OK'' (JsonBody (Obj [(''data'', Arr
      [Obj [(''name'', Str ''Ethereum''), (''chainId'', Str ''1''), (''type'', Str ''evm''),
            (''gasToken'', Obj [(''symbol'', Str ''ETH'')])],
       Obj [(''name'', Str ''Polygon''), (''chainId'', Str ''137''), (''isLive'', Bool True),
            (''isRefuelEnabled'', Bool False)]])]))) ''solana'' =
     Inr \<lparr> success = True, data = Some [], r_message = ''No matching chains found'',
           r_timestamp = ''2024-01-01T00:00:00.000Z'', source = ''RouterNitro'',
           count = Some 0 \<rparr>"
    using inst [of examplePlatform "''2024-01-01T00:00:00.000Z''" "''OK''" "''solana''",
        unfolded example_chains_solana]
    by simp
  from one two show ?thesis by blast
qed

subsection \<open>Parameter extraction\<close>

lemma braces_iff:
  "(\<exists>a b c. s = a @ CHR ''{'' # b @ CHR ''}'' # c) \<longleftrightarrow>
     (\<exists>rest. dropWhile (\<lambda>c. c \<noteq> CHR ''{'') s = CHR ''{'' # rest \<and> CHR ''}'' \<in> set rest)"
proof (induction s)
  case Nil
  then show ?case by simp
next
  case (Cons x xs)
  show ?case
  proof (cases "x = CHR ''{''")
    case True
    have "(\<exists>a b c. x # xs = a @ CHR ''{'' # b @ CHR ''}'' # c) \<longleftrightarrow> CHR ''}'' \<in> set xs"
    proof
      assume "\<exists>a b c. x # xs = a @ CHR ''{'' # b @ CHR ''}'' # c"
      then obtain a b c where e: "x # xs = a @ CHR ''{'' # b @ CHR ''}'' # c" by blast
      then show "CHR ''}'' \<in> set xs"
        by (cases a) auto
    next
      assume "CHR ''}'' \<in> set xs"
      then obtain b c where "xs = b @ CHR ''}'' # c"
        by (auto dest: split_list)
      with True have "x # xs = [] @ CHR ''{'' # b @ CHR ''}'' # c" by simp
      then show "\<exists>a b c. x # xs = a @ CHR ''{'' # b @ CHR ''}'' # c" by blast
    qed
    with True show ?thesis by simp
  next
    case False
    have "(\<exists>a b c. x # xs = a @ CHR ''{'' # b @ CHR ''}'' # c) \<longleftrightarrow>
          (\<exists>a b c. xs = a @ CHR ''{'' # b @ CHR ''}'' # c)"
    proof
      assume "\<exists>a b c. x # xs = a @ CHR ''{'' # b @ CHR ''}'' # c"
      then obtain a b c where e: "x # xs = a @ CHR ''{'' # b @ CHR ''}'' # c" by blast
      with False obtain a' where "a = x # a'" by (cases a) auto
      with e have "xs = a' @ CHR ''{'' # b @ CHR ''}'' # c" by simp
      then show "\<exists>a b c. xs = a @ CHR ''{'' # b @ CHR ''}'' # c" by blast
    next
      assume "\<exists>a b c. xs = a @ CHR ''{'' # b @ CHR ''}'' # c"
      then obtain a b c where "xs = a @ CHR ''{'' # b @ CHR ''}'' # c" by blast
      then have "x # xs = (x # a) @ CHR ''{'' # b @ CHR ''}'' # c" by simp
      then show "\<exists>a b c. x # xs = a @ CHR ''{'' # b @ CHR ''}'' # c" by blast
    qed
    with False Cons.IH show ?thesis by simp
  qed
qed

lemma jsonMatch_None_iff:
  "jsonMatch s = None \<longleftrightarrow> \<not> (\<exists>a b c. s = a @ CHR ''{'' # b @ CHR ''}'' # c)"
proof (cases "dropWhile (\<lambda>c. c \<noteq> CHR ''{'') s")
  case Nil
  show ?thesis
    unfolding jsonMatch_def braces_iff Nil by simp
next
  case (Cons y rest)
  then have "y = CHR ''{''"
    using hd_dropWhile [of "\<lambda>c. c \<noteq> CHR ''{''" s] by auto
  show ?thesis
    unfolding jsonMatch_def braces_iff Cons \<open>y = CHR ''{''\<close> by simp
qed

lemma jsonMatch_Some:
  assumes "jsonMatch s = Some m"
  shows "\<exists>a b c. s = a @ m @ c \<and> m = CHR ''{'' # b @ ''}'' \<and>
           CHR ''{'' \<notin> set a \<and> CHR ''}'' \<notin> set c"
proof -
  let ?d = "dropWhile (\<lambda>c. c \<noteq> CHR ''{'') s"
  from assms obtain y rest where d: "?d = y # rest" and r: "CHR ''}'' \<in> set rest"
    and m: "m = y # rev (dropWhile (\<lambda>c. c \<noteq> CHR ''}'') (rev rest))"
    by (auto simp: jsonMatch_def split: list.splits if_splits)
  from d have y: "y = CHR ''{''"
    using hd_dropWhile [of "\<lambda>c. c \<noteq> CHR ''{''" s] by auto
  let ?a = "takeWhile (\<lambda>c. c \<noteq> CHR ''{'') s"
  let ?t = "takeWhile (\<lambda>c. c \<noteq> CHR ''}'') (rev rest)"
  let ?k = "dropWhile (\<lambda>c. c \<noteq> CHR ''}'') (rev rest)"
  have s: "s = ?a @ y # rest"
    using d takeWhile_dropWhile_id [of "\<lambda>c. c \<noteq> CHR ''{''" s] by simp
  have "rev ?k @ rev ?t = rev (?t @ ?k)"
    by (simp only: rev_append)
  also have "\<dots> = rev (rev rest)"
    by (simp only: takeWhile_dropWhile_id)
  also have "\<dots> = rest"
    by simp
  finally have rest: "rest = rev ?k @ rev ?t" by simp
  from r have "?k \<noteq> []"
    by (simp add: dropWhile_eq_Nil_conv)
  then obtain k' where k: "?k = CHR ''}'' # k'"
    using hd_dropWhile [of "\<lambda>c. c \<noteq> CHR ''}''" "rev rest"] by (cases ?k) auto
  have a: "CHR ''{'' \<notin> set ?a"
    by (auto dest: set_takeWhileD)
  have c: "CHR ''}'' \<notin> set (rev ?t)"
    by (auto dest: set_takeWhileD)
  from s rest m have "s = ?a @ m @ rev ?t" by simp
  moreover from m y k have "m = CHR ''{'' # rev k' @ ''}''" by simp
  ultimately show ?thesis using a c by blast
qed

lemma jsonMatch_whole:
  "jsonMatch (CHR ''{'' # b @ ''}'') = Some (CHR ''{'' # b @ ''}'')"
  by (simp add: jsonMatch_def)

lemma TransactionDetailsSchema_parse_Inr:
  "TransactionDetailsSchema_parse v = Inr r \<longleftrightarrow> detailsShaped v \<and> r = detailsRecord v"
  by (cases v)
     (auto simp: TransactionDetailsSchema_parse_def detailsShaped_def detailsRecord_def
           split: jsval.splits)

lemma TransactionDetailsSchema_parse_fails:
  "\<not> detailsShaped v \<Longrightarrow> \<exists>e. TransactionDetailsSchema_parse v = Inl e"
  using TransactionDetailsSchema_parse_Inr [of v]
  by (cases "TransactionDetailsSchema_parse v") auto

lemma parseReply_Inl_iff:
  "(\<exists>e. parseReply JSON_parse (Str s) = Inl e) \<longleftrightarrow>
     (jsonMatch s = None \<or>
      (\<exists>m e. jsonMatch s = Some m \<and> JSON_parse m = Inl e) \<or>
      (\<exists>m v. jsonMatch s = Some m \<and> JSON_parse m = Inr v \<and> \<not> detailsShaped v))"
proof (cases "jsonMatch s")
  case None
  then show ?thesis by (simp add: parseReply_def andThen_def)
next
  case (Some m)
  show ?thesis
  proof (cases "JSON_parse m")
    case (Inl e)
    with Some show ?thesis by (simp add: parseReply_def andThen_def)
  next
    case (Inr v)
    have "(\<exists>e. TransactionDetailsSchema_parse v = Inl e) \<longleftrightarrow> \<not> detailsShaped v"
      using TransactionDetailsSchema_parse_Inr [of v]
      by (cases "TransactionDetailsSchema_parse v") auto
    with Some Inr show ?thesis by (simp add: parseReply_def andThen_def)
  qed
qed

lemma extract_of_parseReply:
  assumes "llm [(''system'', ''Extract transaction parameters and return them as a JSON object.''),
                (''user'', userPrompt query)] = Inr content"
  shows "(parseReply JSON_parse content = Inr r \<longrightarrow>
            extractTransactionDetails JSON_parse llm query = Inr r) \<and>
         ((\<exists>e. parseReply JSON_parse content = Inl e) \<longleftrightarrow>
            (\<exists>e. extractTransactionDetails JSON_parse llm query = Inl e))"
  using assms
  by (cases "parseReply JSON_parse content")
     (simp_all add: extractTransactionDetails_def andThen_def)


text \<open>
  C6. When the model replies with the string \<open>s\<close>, the extraction throws exactly when
  \<open>s\<close> has no \<^verbatim>\<open>{\<close> followed by a \<^verbatim>\<open>}\<close>, or \<^verbatim>\<open>JSON.parse\<close> throws on the extracted
  substring, or the parsed value is not an object whose five fields \<^verbatim>\<open>fromChain\<close>,
  \<^verbatim>\<open>toChain\<close>, \<^verbatim>\<open>amount\<close>, \<^verbatim>\<open>fromToken\<close>, \<^verbatim>\<open>toToken\<close> are all strings. Otherwise it
  returns those five strings. The extracted substring runs from the first \<^verbatim>\<open>{\<close> to the
  last \<^verbatim>\<open>}\<close>; it is the whole reply when the reply starts with \<^verbatim>\<open>{\<close> and ends with
  \<^verbatim>\<open>}\<close>.
\<close>

theorem extractTransactionDetails_fails_iff:
  assumes "llm [(''system'', ''Extract transaction parameters and return them as a JSON object.''),
                (''user'', userPrompt query)] = Inr (Str s)"
  shows "((\<exists>e. extractTransactionDetails JSON_parse llm query = Inl e) \<longleftrightarrow>
            (\<not> (\<exists>a b c. s = a @ CHR ''{'' # b @ CHR ''}'' # c) \<or>
             (\<exists>m e. jsonMatch s = Some m \<and> JSON_parse m = Inl e) \<or>
             (\<exists>m v. jsonMatch s = Some m \<and> JSON_parse m = Inr v \<and> \<not> detailsShaped v))) \<and>
         (\<forall>m v. jsonMatch s = Some m \<and> JSON_parse m = Inr v \<and> detailsShaped v \<longrightarrow>
            extractTransactionDetails JSON_parse llm query = Inr (detailsRecord v)) \<and>
         (\<forall>m. jsonMatch s = Some m \<longrightarrow>
            (\<exists>a b c. s = a @ m @ c \<and> m = CHR ''{'' # b @ ''}'' \<and>
               CHR ''{'' \<notin> set a \<and> CHR ''}'' \<notin> set c)) \<and>
         (\<forall>b. s = CHR ''{'' # b @ ''}'' \<longrightarrow> jsonMatch s = Some s)"
proof (intro conjI allI impI)
  show "(\<exists>e. extractTransactionDetails JSON_parse llm query = Inl e) \<longleftrightarrow>
            (\<not> (\<exists>a b c. s = a @ CHR ''{'' # b @ CHR ''}'' # c) \<or>
             (\<exists>m e. jsonMatch s = Some m \<and> JSON_parse m = Inl e) \<or>
             (\<exists>m v. jsonMatch s = Some m \<and> JSON_parse m = Inr v \<and> \<not> detailsShaped v))"
    using extract_of_parseReply [of llm query "Str s" JSON_parse, OF assms]
      parseReply_Inl_iff [of JSON_parse s] jsonMatch_None_iff [of s]
    by simp
next
  fix m v
  assume a: "jsonMatch s = Some m \<and> JSON_parse m = Inr v \<and> detailsShaped v"
  then have "TransactionDetailsSchema_parse v = Inr (detailsRecord v)"
    by (simp add: TransactionDetailsSchema_parse_Inr)
  with a have "parseReply JSON_parse (Str s) = Inr (detailsRecord v)"
    by (simp add: parseReply_def andThen_def)
  then show "extractTransactionDetails JSON_parse llm query = Inr (detailsRecord v)"
    using extract_of_parseReply [of llm query "Str s" JSON_parse, OF assms] by simp
next
  fix m
  assume "jsonMatch s = Some m"
  then show "\<exists>a b c. s = a @ m @ c \<and> m = CHR ''{'' # b @ ''}'' \<and>
               CHR ''{'' \<notin> set a \<and> CHR ''}'' \<notin> set c"
    by (rule jsonMatch_Some)
next
  fix b
  assume "s = CHR ''{'' # b @ ''}''"
  then show "jsonMatch s = Some s"
    by (simp add: jsonMatch_whole)
qed

lemma example_reply_match:
  "jsonMatch ''{\"fromChain\":\"Ethereum\",\"toChain\":\"Polygon\",\"amount\":\"100\",\"fromToken\":\"ETH\",\"toToken\":\"ETH\"}'' =
     Some ''{\"fromChain\":\"Ethereum\",\"toChain\":\"Polygon\",\"amount\":\"100\",\"fromToken\":\"ETH\",\"toToken\":\"ETH\"}''"
  by code_simp

lemma example_reply_none: "jsonMatch ''I could not find any parameters.'' = None"
  by code_simp

theorem extractTransactionDetails_fails_iff_witness:
  "extractTransactionDetails
     (\<lambda>t. if t = ''{\"fromChain\":\"Ethereum\",\"toChain\":\"Polygon\",\"amount\":\"100\",\"fromToken\":\"ETH\",\"toToken\":\"ETH\"}''
          then Inr (Obj [(''fromChain'', Str ''Ethereum''), (''toChain'', Str ''Polygon''),
              (''amount'', Str ''100''), (''fromToken'', Str ''ETH''), (''toToken'', Str ''ETH'')])
          else Inl (SyntaxError ''Unexpected token''))
     (\<lambda>msgs. Inr (Str ''{\"fromChain\":\"Ethereum\",\"toChain\":\"Polygon\",\"amount\":\"100\",\"fromToken\":\"ETH\",\"toToken\":\"ETH\"}''))
     ''swap 100 ETH from Ethereum to Polygon'' =
     Inr \<lparr> fromChain = ''Ethereum'', toChain = ''Polygon'', amount = ''100'',
           fromToken = ''ETH'', toToken = ''ETH'' \<rparr> \<and>
   (\<exists>e. extractTransactionDetails
     (\<lambda>t. if t = ''{\"fromChain\":\"Ethereum\",\"toChain\":\"Polygon\",\"amount\":\"100\",\"fromToken\":\"ETH\",\"toToken\":\"ETH\"}''
          then Inr (Obj [(''fromChain'', Str ''Ethereum''), (''toChain'', Str ''Polygon''),
              (''amount'', Str ''100''), (''fromToken'', Str ''ETH''), (''toToken'', Str ''ETH'')])
          else Inl (SyntaxError ''Unexpected token''))
     (\<lambda>msgs. Inr (Str ''I could not find any parameters.''))
     ''swap 100 ETH from Ethereum to Polygon'' = Inl e)"
proof -
  have shaped: "detailsShaped (Obj [(''fromChain'', Str ''Ethereum''), (''toChain'', Str ''Polygon''),
              (''amount'', Str ''100''), (''fromToken'', Str ''ETH''), (''toToken'', Str ''ETH'')])"
    by (simp add: detailsShaped_def field_def)
  have rec: "detailsRecord (Obj [(''fromChain'', Str ''Ethereum''), (''toChain'', Str ''Polygon''),
              (''amount'', Str ''100''), (''fromToken'', Str ''ETH''), (''toToken'', Str ''ETH'')]) =
     \<lparr> fromChain = ''Ethereum'', toChain = ''Polygon'', amount = ''100'',
       fromToken = ''ETH'', toToken = ''ETH'' \<rparr>"
    by (simp add: detailsRecord_def field_def)
  have one: "extractTransactionDetails
     (\<lambda>t. if t = ''{\"fromChain\":\"Ethereum\",\"toChain\":\"Polygon\",\"amount\":\"100\",\"fromToken\":\"ETH\",\"toToken\":\"ETH\"}''
          then Inr (Obj [(''fromChain'', Str ''Ethereum''), (''toChain'', Str ''Polygon''),
              (''amount'', Str ''100''), (''fromToken'', Str ''ETH''), (''toToken'', Str ''ETH'')])
          else Inl (SyntaxError ''Unexpected token''))
     (\<lambda>msgs. Inr (Str ''{\"fromChain\":\"Ethereum\",\"toChain\":\"Polygon\",\"amount\":\"100\",\"fromToken\":\"ETH\",\"toToken\":\"ETH\"}''))
     ''swap 100 ETH from Ethereum to Polygon'' =
     Inr \<lparr> fromChain = ''Ethereum'', toChain = ''Polygon'', amount = ''100'',
           fromToken = ''ETH'', toToken = ''ETH'' \<rparr>"
    using extractTransactionDetails_fails_iff
      [of "\<lambda>msgs. Inr (Str ''{\"fromChain\":\"Ethereum\",\"toChain\":\"Polygon\",\"amount\":\"100\",\"fromToken\":\"ETH\",\"toToken\":\"ETH\"}'')"
          "''swap 100 ETH from Ethereum to Polygon''"
          "''{\"fromChain\":\"Ethereum\",\"toChain\":\"Polygon\",\"amount\":\"100\",\"fromToken\":\"ETH\",\"toToken\":\"ETH\"}''"
          "(\<lambda>t. if t = ''{\"fromChain\":\"Ethereum\",\"toChain\":\"Polygon\",\"amount\":\"100\",\"fromToken\":\"ETH\",\"toToken\":\"ETH\"}''
          then Inr (Obj [(''fromChain'', Str ''Ethereum''), (''toChain'', Str ''Polygon''),
              (''amount'', Str ''100''), (''fromToken'', Str ''ETH''), (''toToken'', Str ''ETH'')])
          else Inl (SyntaxError ''Unexpected token''))"]
      example_reply_match shaped rec
    by simp
  have "\<not> (\<exists>a b c. ''I could not find any parameters.'' = a @ CHR ''{'' # b @ CHR ''}'' # c)"
    using jsonMatch_None_iff [of "''I could not find any parameters.''"] example_reply_none
    by blast
  then have two: "\<exists>e. extractTransactionDetails
     (\<lambda>t. if t = ''{\"fromChain\":\"Ethereum\",\"toChain\":\"Polygon\",\"amount\":\"100\",\"fromToken\":\"ETH\",\"toToken\":\"ETH\"}''
          then Inr (Obj [(''fromChain'', Str ''Ethereum''), (''toChain'', Str ''Polygon''),
              (''amount'', Str ''100''), (''fromToken'', Str ''ETH''), (''toToken'', Str ''ETH'')])
          else Inl (SyntaxError ''Unexpected token''))
     (\<lambda>msgs. Inr (Str ''I could not find any parameters.''))
     ''swap 100 ETH from Ethereum to Polygon'' = Inl e"
    using extractTransactionDetails_fails_iff
      [of "\<lambda>msgs. Inr (Str ''I could not find any parameters.'')"
          "''swap 100 ETH from Ethereum to Polygon''"
          "''I could not find any parameters.''"
          "(\<lambda>t. if t = ''{\"fromChain\":\"Ethereum\",\"toChain\":\"Polygon\",\"amount\":\"100\",\"fromToken\":\"ETH\",\"toToken\":\"ETH\"}''
          then Inr (Obj [(''fromChain'', Str ''Ethereum''), (''toChain'', Str ''Polygon''),
              (''amount'', Str ''100''), (''fromToken'', Str ''ETH''), (''toToken'', Str ''ETH'')])
          else Inl (SyntaxError ''Unexpected token''))"]
    by blast
  from one two show ?thesis by blast
qed

subsection \<open>The pipeline\<close>

lemma chainStage_failure:
  assumes "getChainDetails (platform w) (clock w) (chainFetch w 0) (fromChain details) = Inr fromChainResult"
    and "getChainDetails (platform w) (clock w) (chainFetch w 1) (toChain details) = Inr toChainResult"
    and "\<not> success fromChainResult \<or> \<not> success toChainResult"
  shows "chainStage w details tr =
           (Inr (''Failed to fetch chain details. Please check the chain names and try again.'',
                 ChainFailure ''Invalid chain information'' fromChainResult toChainResult),
            tr @ [ChainLookup (fromChain details), ChainLookup (toChain details)])"
  using assms by (auto simp: chainStage_def andThen_def Let_def)

lemma chainStage_success:
  assumes "getChainDetails (platform w) (clock w) (chainFetch w 0) (fromChain details) = Inr fromChainResult"
    and "getChainDetails (platform w) (clock w) (chainFetch w 1) (toChain details) = Inr toChainResult"
    and "success fromChainResult" and "success toChainResult"
    and "firstChain fromChainResult = Inr a" and "firstChain toChainResult = Inr b"
  shows "chainStage w details tr =
           tokenStage w details a b
             (tr @ [ChainLookup (fromChain details), ChainLookup (toChain details)])"
  using assms by (simp add: chainStage_def andThen_def Let_def)

lemma chainStage_throw:
  assumes "getChainDetails (platform w) (clock w) (chainFetch w 0) (fromChain details) = Inr fromChainResult"
    and "getChainDetails (platform w) (clock w) (chainFetch w 1) (toChain details) = Inr toChainResult"
    and "success fromChainResult" and "success toChainResult"
    and "firstChain fromChainResult = Inl e \<or>
         (\<exists>a. firstChain fromChainResult = Inr a \<and> firstChain toChainResult = Inl e)"
  shows "chainStage w details tr =
           (Inl e, tr @ [ChainLookup (fromChain details), ChainLookup (toChain details)])"
  using assms by (auto simp: chainStage_def andThen_def Let_def)

lemma nitro_of_chainStage:
  assumes "extractTransactionDetails (jsonParse w) (llmInvoke w) query = Inr details"
  shows "nitro w query =
           (case chainStage w details [Extraction query] of
              (Inr r, tr) \<Rightarrow> (Inr r, tr)
            | (Inl error, tr) \<Rightarrow>
                (Inr (''An error occurred while processing your request. Please try again.'',
                      Crash (errorMessageOr error ''Unknown error'') query), tr))"
  using assms by (simp add: nitro_def nitro_try_def)

lemma nitro_total: "\<exists>msg art tr. nitro w query = (Inr (msg, art), tr)"
proof (cases "nitro_try w query")
  case (Pair res tr)
  then show ?thesis
    by (cases res) (auto simp: nitro_def)
qed


text \<open>
  C1. When the extraction succeeded and at least one of the two chain lookups resolved to
  an object with \<^verbatim>\<open>success: false\<close>, the tool returns the fixed message and a payload
  that holds both chain results, and the calls made are the extraction and the two chain
  lookups: no token lookup and no quote lookup.
\<close>

theorem nitro_chain_lookup_failed:
  assumes "extractTransactionDetails (jsonParse w) (llmInvoke w) query = Inr details"
    and "getChainDetails (platform w) (clock w) (chainFetch w 0) (fromChain details) = Inr fromChainResult"
    and "getChainDetails (platform w) (clock w) (chainFetch w 1) (toChain details) = Inr toChainResult"
    and "\<not> success fromChainResult \<or> \<not> success toChainResult"
  shows "nitro w query =
           (Inr (''Failed to fetch chain details. Please check the chain names and try again.'',
                 ChainFailure ''Invalid chain information'' fromChainResult toChainResult),
            [Extraction query, ChainLookup (fromChain details), ChainLookup (toChain details)]) \<and>
         filter isTokenLookup (snd (nitro w query)) = [] \<and>
         filter isQuoteLookup (snd (nitro w query)) = []"
proof -
  have "nitro w query =
           (Inr (''Failed to fetch chain details. Please check the chain names and try again.'',
                 ChainFailure ''Invalid chain information'' fromChainResult toChainResult),
            [Extraction query, ChainLookup (fromChain details), ChainLookup (toChain details)])"
    using nitro_of_chainStage [OF assms(1)] chainStage_failure [OF assms(2,3,4)]
    by simp
  then show ?thesis by simp
qed

lemma C1_extract:
  "extractTransactionDetails
     (jsonParse (scenario \<lparr> chainFetch := \<lambda>i. if i = 0
         then HttpResponse 200 ''OK'' (JsonBody scenarioDirectory)
         else HttpResponse 503 ''Service Unavailable'' (JsonBody Null) \<rparr>))
     (llmInvoke (scenario \<lparr> chainFetch := \<lambda>i. if i = 0
         then HttpResponse 200 ''OK'' (JsonBody scenarioDirectory)
         else HttpResponse 503 ''Service Unavailable'' (JsonBody Null) \<rparr>))
     ''Bridge 50 USDT from BSC to Polygon'' =
   Inr \<lparr> fromChain = ''BSC'', toChain = ''Polygon'', amount = ''50'',
         fromToken = ''USDT'', toToken = ''USDT'' \<rparr>"
  by code_simp

lemma C1_to_chain:
  "getChainDetails
     (platform (scenario \<lparr> chainFetch := \<lambda>i. if i = 0
         then HttpResponse 200 ''OK'' (JsonBody scenarioDirectory)
         else HttpResponse 503 ''Service Unavailable'' (JsonBody Null) \<rparr>))
     (clock (scenario \<lparr> chainFetch := \<lambda>i. if i = 0
         then HttpResponse 200 ''OK'' (JsonBody scenarioDirectory)
         else HttpResponse 503 ''Service Unavailable'' (JsonBody Null) \<rparr>))
     (chainFetch (scenario \<lparr> chainFetch := \<lambda>i. if i = 0
         then HttpResponse 200 ''OK'' (JsonBody scenarioDirectory)
         else HttpResponse 503 ''Service Unavailable'' (JsonBody Null) \<rparr>) 1)
     ''Polygon'' =
   Inr \<lparr> success = False, data = None,
         r_message = ''RouterNitro API error: 503 Service Unavailable'',
         r_timestamp = ''2024-01-01T00:00:00.000Z'', source = ''RouterNitro'',
         count = None \<rparr>"
  by code_simp

lemma C1_from_chain:
  "getChainDetails
     (platform (scenario \<lparr> chainFetch := \<lambda>i. if i = 0
         then HttpResponse 200 ''OK'' (JsonBody scenarioDirectory)
         else HttpResponse 503 ''Service Unavailable'' (JsonBody Null) \<rparr>))
     (clock (scenario \<lparr> chainFetch := \<lambda>i. if i = 0
         then HttpResponse 200 ''OK'' (JsonBody scenarioDirectory)
         else HttpResponse 503 ''Service Unavailable'' (JsonBody Null) \<rparr>))
     (chainFetch (scenario \<lparr> chainFetch := \<lambda>i. if i = 0
         then HttpResponse 200 ''OK'' (JsonBody scenarioDirectory)
         else HttpResponse 503 ''Service Unavailable'' (JsonBody Null) \<rparr>) 0)
     ''BSC'' =
   Inr \<lparr> success = True,
         data = Some [\<lparr> chain = \<lparr> c_name = Str ''BSC'', c_chainId = Str ''56'',
                                   c_type = Str ''evm'', c_isLive = Bool True \<rparr>,
                        gas = \<lparr> g_token = Obj [(''symbol'', Str ''BNB'')], g_limits = Obj [] \<rparr>,
                        features = \<lparr> f_isIntentApiSupported = Bool False,
                                      f_isRefuelEnabled = Bool False,
                                      f_isQREnabled = Bool False \<rparr>,
                        metadata = \<lparr> m_createdAt = Null, m_updatedAt = Null \<rparr>,
                        url = ''https://routernitro.com/chain/56'',
                        q_timestamp = ''2024-01-01T00:00:00.000Z'' \<rparr>],
         r_message = ''Found 1 matching chains'',
         r_timestamp = ''2024-01-01T00:00:00.000Z'',
         source = ''RouterNitro'', count = Some 1 \<rparr>"
  by code_simp

theorem nitro_chain_lookup_failed_witness:
  "nitro (scenario \<lparr> chainFetch := \<lambda>i. if i = 0
         then HttpResponse 200 ''OK'' (JsonBody scenarioDirectory)
         else HttpResponse 503 ''Service Unavailable'' (JsonBody Null) \<rparr>)
     ''Bridge 50 USDT from BSC to Polygon'' =
   (Inr (''Failed to fetch chain details. Please check the chain names and try again.'',
         ChainFailure ''Invalid chain information''
           \<lparr> success = True,
         data = Some [\<lparr> chain = \<lparr> c_name = Str ''BSC'', c_chainId = Str ''56'',
                                   c_type = Str ''evm'', c_isLive = Bool True \<rparr>,
                        gas = \<lparr> g_token = Obj [(''symbol'', Str ''BNB'')], g_limits = Obj [] \<rparr>,
                        features = \<lparr> f_isIntentApiSupported = Bool False,
                                      f_isRefuelEnabled = Bool False,
                                      f_isQREnabled = Bool False \<rparr>,
                        metadata = \<lparr> m_createdAt = Null, m_updatedAt = Null \<rparr>,
                        url = ''https://routernitro.com/chain/56'',
                        q_timestamp = ''2024-01-01T00:00:00.000Z'' \<rparr>],
         r_message = ''Found 1 matching chains'',
         r_timestamp = ''2024-01-01T00:00:00.000Z'',
         source = ''RouterNitro'', count = Some 1 \<rparr>
           \<lparr> success = False, data = None,
               r_message = ''RouterNitro API error: 503 Service Unavailable'',
               r_timestamp = ''2024-01-01T00:00:00.000Z'', source = ''RouterNitro'',
               count = None \<rparr>),
    [Extraction ''Bridge 50 USDT from BSC to Polygon'', ChainLookup ''BSC'',
     ChainLookup ''Polygon''])"
  using nitro_chain_lookup_failed [OF C1_extract, of
      "\<lparr> success = True,
         data = Some [\<lparr> chain = \<lparr> c_name = Str ''BSC'', c_chainId = Str ''56'',
                                   c_type = Str ''evm'', c_isLive = Bool True \<rparr>,
                        gas = \<lparr> g_token = Obj [(''symbol'', Str ''BNB'')], g_limits = Obj [] \<rparr>,
                        features = \<lparr> f_isIntentApiSupported = Bool False,
                                      f_isRefuelEnabled = Bool False,
                                      f_isQREnabled = Bool False \<rparr>,
                        metadata = \<lparr> m_createdAt = Null, m_updatedAt = Null \<rparr>,
                        url = ''https://routernitro.com/chain/56'',
                        q_timestamp = ''2024-01-01T00:00:00.000Z'' \<rparr>],
         r_message = ''Found 1 matching chains'',
         r_timestamp = ''2024-01-01T00:00:00.000Z'',
         source = ''RouterNitro'', count = Some 1 \<rparr>"
      "\<lparr> success = False, data = None,
               r_message = ''RouterNitro API error: 503 Service Unavailable'',
               r_timestamp = ''2024-01-01T00:00:00.000Z'', source = ''RouterNitro'',
               count = None \<rparr>"]
    C1_from_chain C1_to_chain
  by simp

lemma extract_throws_Error:
  "extractTransactionDetails JSON_parse llm query = Inl e \<Longrightarrow> \<exists>m. e = Error m"
  by (auto simp: extractTransactionDetails_def andThen_def split: sum.splits)

text \<open>
  C9. The tool never rejects: it resolves to a message and a payload whatever the query
  and the collaborators do. An error thrown inside the \<^verbatim>\<open>try\<close> block, that of the
  parameter extraction included, becomes the fixed message with the payload
  \<^verbatim>\<open>{error, query}\<close>, where \<^verbatim>\<open>error\<close> is the message of the error.
\<close>

theorem nitro_never_rejects:
  "(\<exists>msg art tr. nitro w query = (Inr (msg, art), tr)) \<and>
   (\<forall>e tr. nitro_try w query = (Inl e, tr) \<longrightarrow>
      nitro w query =
        (Inr (''An error occurred while processing your request. Please try again.'',
              Crash (if instanceofError e then message e else ''Unknown error'') query), tr)) \<and>
   (\<forall>e. extractTransactionDetails (jsonParse w) (llmInvoke w) query = Inl e \<longrightarrow>
      nitro w query =
        (Inr (''An error occurred while processing your request. Please try again.'',
              Crash (message e) query), [Extraction query]))"
proof (intro conjI allI impI)
  show "\<exists>msg art tr. nitro w query = (Inr (msg, art), tr)"
    by (rule nitro_total)
next
  fix e tr
  assume "nitro_try w query = (Inl e, tr)"
  then show "nitro w query =
        (Inr (''An error occurred while processing your request. Please try again.'',
              Crash (if instanceofError e then message e else ''Unknown error'') query), tr)"
    by (simp add: nitro_def errorMessageOr_def)
next
  fix e
  assume a: "extractTransactionDetails (jsonParse w) (llmInvoke w) query = Inl e"
  then obtain m where "e = Error m"
    using extract_throws_Error by blast
  with a show "nitro w query =
        (Inr (''An error occurred while processing your request. Please try again.'',
              Crash (message e) query), [Extraction query])"
    by (simp add: nitro_def nitro_try_def errorMessageOr_def)
qed

lemma C9_extract:
  "extractTransactionDetails
     (jsonParse (scenario \<lparr> llmInvoke := \<lambda>msgs. Inl (Error ''429 Too Many Requests'') \<rparr>))
     (llmInvoke (scenario \<lparr> llmInvoke := \<lambda>msgs. Inl (Error ''429 Too Many Requests'') \<rparr>))
     ''Bridge 50 USDT from BSC to Polygon'' =
   Inl (Error ''Failed to extract transaction parameters: 429 Too Many Requests'')"
  by code_simp

theorem nitro_never_rejects_witness:
  "nitro (scenario \<lparr> llmInvoke := \<lambda>msgs. Inl (Error ''429 Too Many Requests'') \<rparr>)
     ''Bridge 50 USDT from BSC to Polygon'' =
   (Inr (''An error occurred while processing your request. Please try again.'',
         Crash ''Failed to extract transaction parameters: 429 Too Many Requests''
           ''Bridge 50 USDT from BSC to Polygon''),
    [Extraction ''Bridge 50 USDT from BSC to Polygon''])"
  using nitro_never_rejects
    [of "scenario \<lparr> llmInvoke := \<lambda>msgs. Inl (Error ''429 Too Many Requests'') \<rparr>"
        "''Bridge 50 USDT from BSC to Polygon''"]
    C9_extract
  by simp

lemma tokenStage_undefined:
  assumes "a = None \<or> b = None"
  shows "\<exists>m tr'. tokenStage w details a b tr = (Inl (TypeError m), tr') \<and>
           filter isQuoteLookup tr' = filter isQuoteLookup tr \<and>
           length (filter isTokenLookup tr') \<le> Suc (length (filter isTokenLookup tr))"
proof (cases a)
  case None
  then show ?thesis by (simp add: tokenStage_def)
next
  case (Some fc)
  with assms have "b = None" by simp
  with Some show ?thesis by (simp add: tokenStage_def Let_def)
qed

lemma firstChain_cases:
  "(\<exists>m. firstChain r = Inl (TypeError m)) \<or> (\<exists>a. firstChain r = Inr a)"
  by (simp add: firstChain_def split: option.splits list.splits)

lemma firstChain_empty: "data r = Some [] \<Longrightarrow> firstChain r = Inr None"
  by (simp add: firstChain_def)

lemma firstChain_first: "data r = Some (x # xs) \<Longrightarrow> firstChain r = Inr (Some (chain x))"
  by (simp add: firstChain_def)

lemma chainStage_empty:
  assumes "getChainDetails (platform w) (clock w) (chainFetch w 0) (fromChain details) = Inr fromChainResult"
    and "getChainDetails (platform w) (clock w) (chainFetch w 1) (toChain details) = Inr toChainResult"
    and "success fromChainResult" and "success toChainResult"
    and "data fromChainResult = Some [] \<or> data toChainResult = Some []"
  shows "\<exists>m tr. chainStage w details [Extraction query] = (Inl (TypeError m), tr) \<and>
           filter isQuoteLookup tr = [] \<and> length (filter isTokenLookup tr) \<le> 1"
proof -
  let ?tr = "[Extraction query] @ [ChainLookup (fromChain details), ChainLookup (toChain details)]"
  consider (t1) m where "firstChain fromChainResult = Inl (TypeError m)"
    | (t2) a m where "firstChain fromChainResult = Inr a"
        "firstChain toChainResult = Inl (TypeError m)"
    | (ok) a b where "firstChain fromChainResult = Inr a" "firstChain toChainResult = Inr b"
    using firstChain_cases [of fromChainResult] firstChain_cases [of toChainResult] by blast
  then show ?thesis
  proof cases
    case t1
    then have "chainStage w details [Extraction query] = (Inl (TypeError m), ?tr)"
      using chainStage_throw [OF assms(1-4), of "TypeError m" "[Extraction query]"] by simp
    then show ?thesis by simp
  next
    case t2
    then have "chainStage w details [Extraction query] = (Inl (TypeError m), ?tr)"
      using chainStage_throw [OF assms(1-4), of "TypeError m" "[Extraction query]"] by simp
    then show ?thesis by simp
  next
    case ok
    from ok assms(5) have "a = None \<or> b = None"
      by (auto simp: firstChain_def)
    then obtain m tr' where "tokenStage w details a b ?tr = (Inl (TypeError m), tr')"
      and "filter isQuoteLookup tr' = filter isQuoteLookup ?tr"
      and "length (filter isTokenLookup tr') \<le> Suc (length (filter isTokenLookup ?tr))"
      using tokenStage_undefined [of a b w details ?tr] by blast
    moreover have "chainStage w details [Extraction query] = tokenStage w details a b ?tr"
      using chainStage_success [OF assms(1-4) ok] .
    ultimately show ?thesis by simp
  qed
qed

text \<open>
  C3. When the extraction succeeded and both chain lookups resolved to \<^verbatim>\<open>success: true\<close>
  but one of the two lists of matches is empty, the tool returns the message of its
  \<^verbatim>\<open>catch\<close> block with the payload \<^verbatim>\<open>{error, query}\<close>, not the tuple of a found
  route. The quote lookup is not called, and at most the token lookup of the source side
  was started before the pipeline stopped.
\<close>

theorem nitro_empty_match_halts:
  assumes "extractTransactionDetails (jsonParse w) (llmInvoke w) query = Inr details"
    and "getChainDetails (platform w) (clock w) (chainFetch w 0) (fromChain details) = Inr fromChainResult"
    and "getChainDetails (platform w) (clock w) (chainFetch w 1) (toChain details) = Inr toChainResult"
    and "success fromChainResult" and "success toChainResult"
    and "data fromChainResult = Some [] \<or> data toChainResult = Some []"
  shows "\<exists>m tr. nitro w query =
           (Inr (''An error occurred while processing your request. Please try again.'',
                 Crash m query), tr) \<and>
           filter isQuoteLookup tr = [] \<and> length (filter isTokenLookup tr) \<le> 1"
proof -
  obtain m tr where "chainStage w details [Extraction query] = (Inl (TypeError m), tr)"
    and "filter isQuoteLookup tr = []" and "length (filter isTokenLookup tr) \<le> 1"
    using chainStage_empty [OF assms(2-6)] by blast
  then show ?thesis
    using nitro_of_chainStage [OF assms(1)] by (simp add: errorMessageOr_def)
qed


lemma C3_extract:
  "extractTransactionDetails
     (jsonParse (scenario \<lparr> chainFetch := \<lambda>i. HttpResponse 200 ''OK'' (JsonBody (Obj [(''data'', Arr
         [Obj [(''chainId'', Str ''56''), (''name'', Str ''BSC'')]])])) \<rparr>))
     (llmInvoke (scenario \<lparr> chainFetch := \<lambda>i. HttpResponse 200 ''OK'' (JsonBody (Obj [(''data'', Arr
         [Obj [(''chainId'', Str ''56''), (''name'', Str ''BSC'')]])])) \<rparr>))
     ''Bridge 50 USDT from BSC to Polygon'' =
   Inr \<lparr> fromChain = ''BSC'', toChain = ''Polygon'', amount = ''50'',
         fromToken = ''USDT'', toToken = ''USDT'' \<rparr>"
  by code_simp

lemma C3_from_chain:
  "getChainDetails
     (platform (scenario \<lparr> chainFetch := \<lambda>i. HttpResponse 200 ''OK'' (JsonBody (Obj [(''data'', Arr
         [Obj [(''chainId'', Str ''56''), (''name'', Str ''BSC'')]])])) \<rparr>))
     (clock (scenario \<lparr> chainFetch := \<lambda>i. HttpResponse 200 ''OK'' (JsonBody (Obj [(''data'', Arr
         [Obj [(''chainId'', Str ''56''), (''name'', Str ''BSC'')]])])) \<rparr>))
     (chainFetch (scenario \<lparr> chainFetch := \<lambda>i. HttpResponse 200 ''OK'' (JsonBody (Obj [(''data'', Arr
         [Obj [(''chainId'', Str ''56''), (''name'', Str ''BSC'')]])])) \<rparr>) 0)
     (fromChain \<lparr> fromChain = ''BSC'', toChain = ''Polygon'', amount = ''50'',
         fromToken = ''USDT'', toToken = ''USDT'' \<rparr>) =
   Inr \<lparr> success = True,
         data = Some [\<lparr> chain = \<lparr> c_name = Str ''BSC'', c_chainId = Str ''56'',
                                   c_type = Str ''Unknown'', c_isLive = Bool False \<rparr>,
                        gas = \<lparr> g_token = Null, g_limits = Obj [] \<rparr>,
                        features = \<lparr> f_isIntentApiSupported = Bool False,
                                      f_isRefuelEnabled = Bool False,
                                      f_isQREnabled = Bool False \<rparr>,
                        metadata = \<lparr> m_createdAt = Null, m_updatedAt = Null \<rparr>,
                        url = ''https://routernitro.com/chain/56'',
                        q_timestamp = ''2024-01-01T00:00:00.000Z'' \<rparr>],
         r_message = ''Found 1 matching chains'',
         r_timestamp = ''2024-01-01T00:00:00.000Z'',
         source = ''RouterNitro'', count = Some 1 \<rparr>"
  by code_simp

lemma C3_to_chain:
  "getChainDetails
     (platform (scenario \<lparr> chainFetch := \<lambda>i. HttpResponse 200 ''OK'' (JsonBody (Obj [(''data'', Arr
         [Obj [(''chainId'', Str ''56''), (''name'', Str ''BSC'')]])])) \<rparr>))
     (clock (scenario \<lparr> chainFetch := \<lambda>i. HttpResponse 200 ''OK'' (JsonBody (Obj [(''data'', Arr
         [Obj [(''chainId'', Str ''56''), (''name'', Str ''BSC'')]])])) \<rparr>))
     (chainFetch (scenario \<lparr> chainFetch := \<lambda>i. HttpResponse 200 ''OK'' (JsonBody (Obj [(''data'', Arr
         [Obj [(''chainId'', Str ''56''), (''name'', Str ''BSC'')]])])) \<rparr>) 1)
     (toChain \<lparr> fromChain = ''BSC'', toChain = ''Polygon'', amount = ''50'',
         fromToken = ''USDT'', toToken = ''USDT'' \<rparr>) =
   Inr \<lparr> success = True, data = Some [], r_message = ''No matching chains found'',
         r_timestamp = ''2024-01-01T00:00:00.000Z'', source = ''RouterNitro'',
         count = Some 0 \<rparr>"
  by code_simp

theorem nitro_empty_match_halts_witness:
  "\<exists>m tr. nitro (scenario \<lparr> chainFetch := \<lambda>i. HttpResponse 200 ''OK'' (JsonBody (Obj [(''data'', Arr
         [Obj [(''chainId'', Str ''56''), (''name'', Str ''BSC'')]])])) \<rparr>)
       ''Bridge 50 USDT from BSC to Polygon'' =
     (Inr (''An error occurred while processing your request. Please try again.'',
           Crash m ''Bridge 50 USDT from BSC to Polygon''), tr) \<and>
     filter isQuoteLookup tr = [] \<and> length (filter isTokenLookup tr) \<le> 1"
proof -
  have s1: "success \<lparr> success = True,
         data = Some [\<lparr> chain = \<lparr> c_name = Str ''BSC'', c_chainId = Str ''56'',
                                   c_type = Str ''Unknown'', c_isLive = Bool False \<rparr>,
                        gas = \<lparr> g_token = Null, g_limits = Obj [] \<rparr>,
                        features = \<lparr> f_isIntentApiSupported = Bool False,
                                      f_isRefuelEnabled = Bool False,
                                      f_isQREnabled = Bool False \<rparr>,
                        metadata = \<lparr> m_createdAt = Null, m_updatedAt = Null \<rparr>,
                        url = ''https://routernitro.com/chain/56'',
                        q_timestamp = ''2024-01-01T00:00:00.000Z'' \<rparr>],
         r_message = ''Found 1 matching chains'',
         r_timestamp = ''2024-01-01T00:00:00.000Z'',
         source = ''RouterNitro'', count = Some 1 \<rparr>"
    by simp
  have s2: "success \<lparr> success = True, data = Some [], r_message = ''No matching chains found'',
         r_timestamp = ''2024-01-01T00:00:00.000Z'', source = ''RouterNitro'',
         count = Some 0 \<rparr>"
    by simp
  have e: "data \<lparr> success = True,
         data = Some [\<lparr> chain = \<lparr> c_name = Str ''BSC'', c_chainId = Str ''56'',
                                   c_type = Str ''Unknown'', c_isLive = Bool False \<rparr>,
                        gas = \<lparr> g_token = Null, g_limits = Obj [] \<rparr>,
                        features = \<lparr> f_isIntentApiSupported = Bool False,
                                      f_isRefuelEnabled = Bool False,
                                      f_isQREnabled = Bool False \<rparr>,
                        metadata = \<lparr> m_createdAt = Null, m_updatedAt = Null \<rparr>,
                        url = ''https://routernitro.com/chain/56'',
                        q_timestamp = ''2024-01-01T00:00:00.000Z'' \<rparr>],
         r_message = ''Found 1 matching chains'',
         r_timestamp = ''2024-01-01T00:00:00.000Z'',
         source = ''RouterNitro'', count = Some 1 \<rparr> = Some [] \<or>
           data \<lparr> success = True, data = Some [], r_message = ''No matching chains found'',
         r_timestamp = ''2024-01-01T00:00:00.000Z'', source = ''RouterNitro'',
         count = Some 0 \<rparr> = Some []"
    by simp
  show ?thesis
    by (rule nitro_empty_match_halts [OF C3_extract C3_from_chain C3_to_chain s1 s2 e])
qed

lemma quoteStage_found:
  assumes "getTransactionDetails (quoteFetch w)
             \<lparr> fromChainId = c_chainId fc, toChainId = c_chainId tc,
               fromTokenAddress = address ft, toTokenAddress = address tt,
               p_amount = amount details \<rparr> = Inr (Some q)"
  shows "quoteStage w details fc tc ft tt tr =
           (Inr (humanReadableResponse (platform w) details q,
                 RouteFound \<lparr> a_fromChain = fc, a_toChain = tc, a_fromToken = ft,
                              a_toToken = tt, a_amount = amount details, a_quote = q \<rparr>),
            tr @ [QuoteLookup \<lparr> fromChainId = c_chainId fc, toChainId = c_chainId tc,
                                fromTokenAddress = address ft, toTokenAddress = address tt,
                                p_amount = amount details \<rparr>])"
  using assms by (simp add: quoteStage_def Let_def)

lemma tokenStage_found:
  assumes "getTokenDetails (platform w) (tokenFetch w 0) (c_chainId fc) (fromToken details) = Inr (Some ft)"
    and "getTokenDetails (platform w) (tokenFetch w 1) (c_chainId tc) (toToken details) = Inr (Some tt)"
  shows "tokenStage w details (Some fc) (Some tc) tr =
           quoteStage w details fc tc ft tt
             (tr @ [TokenLookup (c_chainId fc) (fromToken details),
                    TokenLookup (c_chainId tc) (toToken details)])"
  using assms by (simp add: tokenStage_def Let_def andThen_def)

text \<open>
  C8. When the extraction succeeds, both chain lookups succeed with at least one match,
  both token lookups return records and the quote lookup returns a quote, the tool returns
  the summary \<^verbatim>\<open>Found route to {toToken} on {toChain} chain:\<close> followed by the lines of
  the amount, the expected output, the price impact and the estimated gas (the number of
  the quote, printed as the platform prints a number), together with
  the object \<^verbatim>\<open>{fromChain, toChain, fromToken, toToken, amount, quote}\<close>: the first match
  of each chain lookup, the two token records, the extracted amount and the quote.
\<close>

theorem nitro_route_found:
  assumes "extractTransactionDetails (jsonParse w) (llmInvoke w) query = Inr details"
    and "getChainDetails (platform w) (clock w) (chainFetch w 0) (fromChain details) = Inr fromChainResult"
    and "getChainDetails (platform w) (clock w) (chainFetch w 1) (toChain details) = Inr toChainResult"
    and "success fromChainResult" and "success toChainResult"
    and "data fromChainResult = Some (x # xs)" and "data toChainResult = Some (y # ys)"
    and "getTokenDetails (platform w) (tokenFetch w 0) (c_chainId (chain x)) (fromToken details) =
           Inr (Some ft)"
    and "getTokenDetails (platform w) (tokenFetch w 1) (c_chainId (chain y)) (toToken details) =
           Inr (Some tt)"
    and "getTransactionDetails (quoteFetch w)
           \<lparr> fromChainId = c_chainId (chain x), toChainId = c_chainId (chain y),
             fromTokenAddress = address ft, toTokenAddress = address tt,
             p_amount = amount details \<rparr> = Inr (Some q)"
  shows "fst (nitro w query) =
           Inr (''Found route to '' @ toToken details @ '' on '' @ toChain details @ '' chain:'' @
                ''\<newline>- Amount: '' @ amount details @ '' '' @ fromToken details @
                ''\<newline>- Expected output: '' @ expectedOutput q @ '' '' @ toToken details @
                ''\<newline>- Price impact: '' @ priceImpact q @
                ''\<newline>- Estimated gas: '' @ numberToString (platform w) (estimatedGas q),
                RouteFound \<lparr> a_fromChain = chain x, a_toChain = chain y, a_fromToken = ft,
                             a_toToken = tt, a_amount = amount details, a_quote = q \<rparr>)"
proof -
  have "chainStage w details [Extraction query] =
          tokenStage w details (Some (chain x)) (Some (chain y))
            ([Extraction query] @ [ChainLookup (fromChain details), ChainLookup (toChain details)])"
    using assms(6,7)
    by (intro chainStage_success [OF assms(2-5)]) (simp_all add: firstChain_def)
  then have "fst (chainStage w details [Extraction query]) =
          Inr (humanReadableResponse (platform w) details q,
               RouteFound \<lparr> a_fromChain = chain x, a_toChain = chain y, a_fromToken = ft,
                            a_toToken = tt, a_amount = amount details, a_quote = q \<rparr>)"
    by (simp add: tokenStage_found [OF assms(8,9)] quoteStage_found [OF assms(10)])
  then have "fst (nitro w query) =
          Inr (humanReadableResponse (platform w) details q,
               RouteFound \<lparr> a_fromChain = chain x, a_toChain = chain y, a_fromToken = ft,
                            a_toToken = tt, a_amount = amount details, a_quote = q \<rparr>)"
    using nitro_of_chainStage [OF assms(1)]
    by (cases "chainStage w details [Extraction query]") simp
  then show ?thesis
    by (simp add: humanReadableResponse_def)
qed


lemma scenario_extract:
  "extractTransactionDetails (jsonParse scenario) (llmInvoke scenario)
     ''Bridge 50 USDT from BSC to Polygon'' =
   Inr \<lparr> fromChain = ''BSC'', toChain = ''Polygon'', amount = ''50'',
         fromToken = ''USDT'', toToken = ''USDT'' \<rparr>"
  by code_simp

lemma scenario_from_chain:
  "getChainDetails (platform scenario) (clock scenario) (chainFetch scenario 0) ''BSC'' =
   Inr \<lparr> success = True,
         data = Some [\<lparr> chain = \<lparr> c_name = Str ''BSC'', c_chainId = Str ''56'',
                         c_type = Str ''evm'', c_isLive = Bool True \<rparr>,
              gas = \<lparr> g_token = Obj [(''symbol'', Str ''BNB'')], g_limits = Obj [] \<rparr>,
              features = \<lparr> f_isIntentApiSupported = Bool False,
                            f_isRefuelEnabled = Bool False,
                            f_isQREnabled = Bool False \<rparr>,
              metadata = \<lparr> m_createdAt = Null, m_updatedAt = Null \<rparr>,
              url = ''https://routernitro.com/chain/56'',
              q_timestamp = ''2024-01-01T00:00:00.000Z'' \<rparr>],
         r_message = ''Found 1 matching chains'',
         r_timestamp = ''2024-01-01T00:00:00.000Z'',
         source = ''RouterNitro'', count = Some 1 \<rparr>"
  by code_simp

lemma scenario_to_chain:
  "getChainDetails (platform scenario) (clock scenario) (chainFetch scenario 1) ''Polygon'' =
   Inr \<lparr> success = True,
         data = Some [\<lparr> chain = \<lparr> c_name = Str ''Polygon'', c_chainId = Str ''137'',
                         c_type = Str ''evm'', c_isLive = Bool True \<rparr>,
              gas = \<lparr> g_token = Obj [(''symbol'', Str ''POL'')], g_limits = Obj [] \<rparr>,
              features = \<lparr> f_isIntentApiSupported = Bool False,
                            f_isRefuelEnabled = Bool False,
                            f_isQREnabled = Bool False \<rparr>,
              metadata = \<lparr> m_createdAt = Null, m_updatedAt = Null \<rparr>,
              url = ''https://routernitro.com/chain/137'',
              q_timestamp = ''2024-01-01T00:00:00.000Z'' \<rparr>],
         r_message = ''Found 1 matching chains'',
         r_timestamp = ''2024-01-01T00:00:00.000Z'',
         source = ''RouterNitro'', count = Some 1 \<rparr>"
  by code_simp

lemma scenario_from_token:
  "getTokenDetails (platform scenario) (tokenFetch scenario 0) (Str ''56'') ''USDT'' =
   Inr (Some \<lparr> symbol = ''USDT'', address = ''0x55d3'', decimals = 18, t_chainId = ''56'' \<rparr>)"
  by code_simp

lemma scenario_to_token:
  "getTokenDetails (platform scenario) (tokenFetch scenario 1) (Str ''137'') ''USDT'' =
   Inr (Some \<lparr> symbol = ''USDT'', address = ''0xc213'', decimals = 6, t_chainId = ''137'' \<rparr>)"
  by code_simp

lemma scenario_quote:
  "getTransactionDetails (quoteFetch scenario)
     \<lparr> fromChainId = Str ''56'', toChainId = Str ''137'', fromTokenAddress = ''0x55d3'',
       toTokenAddress = ''0xc213'', p_amount = ''50'' \<rparr> =
   Inr (Some \<lparr> estimatedGas = 210000, route = [], expectedOutput = ''49.95'', priceImpact = ''0.1'' \<rparr>)"
  by code_simp

lemma digit_values:
  "digit 0 = CHR ''0''" "digit (Suc 0) = CHR ''1''" "digit 2 = CHR ''2''" "digit 3 = CHR ''3''"
  "digit 4 = CHR ''4''" "digit 5 = CHR ''5''" "digit 6 = CHR ''6''" "digit 7 = CHR ''7''"
  "digit 8 = CHR ''8''" "digit 9 = CHR ''9''"
  by code_simp+

lemma scenario_gas: "numberToString (platform scenario) 210000 = ''210000''"
  by (simp add: scenario_def examplePlatform_def integerDigits_def showNat.simps digit_values)

lemma scenario_gas': "numberToString (platform scenario) 35000 = ''35000''"
  by (simp add: scenario_def examplePlatform_def integerDigits_def showNat.simps digit_values)

lemma scenario_quote':
  "getTransactionDetails
     (\<lambda>p. HttpResponse 200 ''OK''
          (JsonBody (Obj [(''estimatedGas'', Num 35000), (''route'', Arr []),
                          (''expectedOutput'', Str ''49.95''), (''priceImpact'', Str ''0.1'')])))
     \<lparr> fromChainId = Str ''56'', toChainId = Str ''137'', fromTokenAddress = ''0x55d3'',
       toTokenAddress = ''0xc213'', p_amount = ''50'' \<rparr> =
   Inr (Some \<lparr> estimatedGas = 35000, route = [], expectedOutput = ''49.95'', priceImpact = ''0.1'' \<rparr>)"
  by code_simp

theorem nitro_route_found_witness:
  "fst (nitro scenario ''Bridge 50 USDT from BSC to Polygon'') =
     Inr (''Found route to USDT on Polygon chain:\<newline>- Amount: 50 USDT\<newline>- Expected output: 49.95 USDT\<newline>- Price impact: 0.1\<newline>- Estimated gas: 210000'',
          RouteFound
            \<lparr> a_fromChain = \<lparr> c_name = Str ''BSC'', c_chainId = Str ''56'', c_type = Str ''evm'', c_isLive = Bool True \<rparr>,
              a_toChain = \<lparr> c_name = Str ''Polygon'', c_chainId = Str ''137'', c_type = Str ''evm'', c_isLive = Bool True \<rparr>,
              a_fromToken = \<lparr> symbol = ''USDT'', address = ''0x55d3'', decimals = 18, t_chainId = ''56'' \<rparr>,
              a_toToken = \<lparr> symbol = ''USDT'', address = ''0xc213'', decimals = 6, t_chainId = ''137'' \<rparr>,
              a_amount = ''50'',
              a_quote = \<lparr> estimatedGas = 210000, route = [], expectedOutput = ''49.95'', priceImpact = ''0.1'' \<rparr> \<rparr>) \<and>
   fst (nitro (scenario \<lparr> quoteFetch := \<lambda>p. HttpResponse 200 ''OK''
          (JsonBody (Obj [(''estimatedGas'', Num 35000), (''route'', Arr []),
                          (''expectedOutput'', Str ''49.95''), (''priceImpact'', Str ''0.1'')])) \<rparr>)
       ''Bridge 50 USDT from BSC to Polygon'') =
     Inr (''Found route to USDT on Polygon chain:\<newline>- Amount: 50 USDT\<newline>- Expected output: 49.95 USDT\<newline>- Price impact: 0.1\<newline>- Estimated gas: 35000'',
          RouteFound
            \<lparr> a_fromChain = \<lparr> c_name = Str ''BSC'', c_chainId = Str ''56'', c_type = Str ''evm'', c_isLive = Bool True \<rparr>,
              a_toChain = \<lparr> c_name = Str ''Polygon'', c_chainId = Str ''137'', c_type = Str ''evm'', c_isLive = Bool True \<rparr>,
              a_fromToken = \<lparr> symbol = ''USDT'', address = ''0x55d3'', decimals = 18, t_chainId = ''56'' \<rparr>,
              a_toToken = \<lparr> symbol = ''USDT'', address = ''0xc213'', decimals = 6, t_chainId = ''137'' \<rparr>,
              a_amount = ''50'',
              a_quote = \<lparr> estimatedGas = 35000, route = [], expectedOutput = ''49.95'', priceImpact = ''0.1'' \<rparr> \<rparr>)"
proof -
  have one: "fst (nitro scenario ''Bridge 50 USDT from BSC to Polygon'') =
     Inr (''Found route to USDT on Polygon chain:\<newline>- Amount: 50 USDT\<newline>- Expected output: 49.95 USDT\<newline>- Price impact: 0.1\<newline>- Estimated gas: 210000'',
          RouteFound
            \<lparr> a_fromChain = \<lparr> c_name = Str ''BSC'', c_chainId = Str ''56'', c_type = Str ''evm'', c_isLive = Bool True \<rparr>,
              a_toChain = \<lparr> c_name = Str ''Polygon'', c_chainId = Str ''137'', c_type = Str ''evm'', c_isLive = Bool True \<rparr>,
              a_fromToken = \<lparr> symbol = ''USDT'', address = ''0x55d3'', decimals = 18, t_chainId = ''56'' \<rparr>,
              a_toToken = \<lparr> symbol = ''USDT'', address = ''0xc213'', decimals = 6, t_chainId = ''137'' \<rparr>,
              a_amount = ''50'',
              a_quote = \<lparr> estimatedGas = 210000, route = [], expectedOutput = ''49.95'', priceImpact = ''0.1'' \<rparr> \<rparr>)"
    using nitro_route_found
    [of scenario "''Bridge 50 USDT from BSC to Polygon''"
        "\<lparr> fromChain = ''BSC'', toChain = ''Polygon'', amount = ''50'',
         fromToken = ''USDT'', toToken = ''USDT'' \<rparr>"
        "\<lparr> success = True,
         data = Some [\<lparr> chain = \<lparr> c_name = Str ''BSC'', c_chainId = Str ''56'',
                         c_type = Str ''evm'', c_isLive = Bool True \<rparr>,
              gas = \<lparr> g_token = Obj [(''symbol'', Str ''BNB'')], g_limits = Obj [] \<rparr>,
              features = \<lparr> f_isIntentApiSupported = Bool False,
                            f_isRefuelEnabled = Bool False,
                            f_isQREnabled = Bool False \<rparr>,
              metadata = \<lparr> m_createdAt = Null, m_updatedAt = Null \<rparr>,
              url = ''https://routernitro.com/chain/56'',
              q_timestamp = ''2024-01-01T00:00:00.000Z'' \<rparr>],
         r_message = ''Found 1 matching chains'',
         r_timestamp = ''2024-01-01T00:00:00.000Z'',
         source = ''RouterNitro'', count = Some 1 \<rparr>"
        "\<lparr> success = True,
         data = Some [\<lparr> chain = \<lparr> c_name = Str ''Polygon'', c_chainId = Str ''137'',
                         c_type = Str ''evm'', c_isLive = Bool True \<rparr>,
              gas = \<lparr> g_token = Obj [(''symbol'', Str ''POL'')], g_limits = Obj [] \<rparr>,
              features = \<lparr> f_isIntentApiSupported = Bool False,
                            f_isRefuelEnabled = Bool False,
                            f_isQREnabled = Bool False \<rparr>,
              metadata = \<lparr> m_createdAt = Null, m_updatedAt = Null \<rparr>,
              url = ''https://routernitro.com/chain/137'',
              q_timestamp = ''2024-01-01T00:00:00.000Z'' \<rparr>],
         r_message = ''Found 1 matching chains'',
         r_timestamp = ''2024-01-01T00:00:00.000Z'',
         source = ''RouterNitro'', count = Some 1 \<rparr>"
        "\<lparr> chain = \<lparr> c_name = Str ''BSC'', c_chainId = Str ''56'',
                         c_type = Str ''evm'', c_isLive = Bool True \<rparr>,
              gas = \<lparr> g_token = Obj [(''symbol'', Str ''BNB'')], g_limits = Obj [] \<rparr>,
              features = \<lparr> f_isIntentApiSupported = Bool False,
                            f_isRefuelEnabled = Bool False,
                            f_isQREnabled = Bool False \<rparr>,
              metadata = \<lparr> m_createdAt = Null, m_updatedAt = Null \<rparr>,
              url = ''https://routernitro.com/chain/56'',
              q_timestamp = ''2024-01-01T00:00:00.000Z'' \<rparr>" "[]"
        "\<lparr> chain = \<lparr> c_name = Str ''Polygon'', c_chainId = Str ''137'',
                         c_type = Str ''evm'', c_isLive = Bool True \<rparr>,
              gas = \<lparr> g_token = Obj [(''symbol'', Str ''POL'')], g_limits = Obj [] \<rparr>,
              features = \<lparr> f_isIntentApiSupported = Bool False,
                            f_isRefuelEnabled = Bool False,
                            f_isQREnabled = Bool False \<rparr>,
              metadata = \<lparr> m_createdAt = Null, m_updatedAt = Null \<rparr>,
              url = ''https://routernitro.com/chain/137'',
              q_timestamp = ''2024-01-01T00:00:00.000Z'' \<rparr>" "[]"
        "\<lparr> symbol = ''USDT'', address = ''0x55d3'', decimals = 18, t_chainId = ''56'' \<rparr>"
        "\<lparr> symbol = ''USDT'', address = ''0xc213'', decimals = 6, t_chainId = ''137'' \<rparr>"
        "\<lparr> estimatedGas = 210000, route = [], expectedOutput = ''49.95'', priceImpact = ''0.1'' \<rparr>"]
    scenario_extract scenario_from_chain scenario_to_chain scenario_from_token
    scenario_to_token scenario_quote scenario_gas
    by simp
  have two: "fst (nitro (scenario \<lparr> quoteFetch := \<lambda>p. HttpResponse 200 ''OK''
          (JsonBody (Obj [(''estimatedGas'', Num 35000), (''route'', Arr []),
                          (''expectedOutput'', Str ''49.95''), (''priceImpact'', Str ''0.1'')])) \<rparr>)
       ''Bridge 50 USDT from BSC to Polygon'') =
     Inr (''Found route to USDT on Polygon chain:\<newline>- Amount: 50 USDT\<newline>- Expected output: 49.95 USDT\<newline>- Price impact: 0.1\<newline>- Estimated gas: 35000'',
          RouteFound
            \<lparr> a_fromChain = \<lparr> c_name = Str ''BSC'', c_chainId = Str ''56'', c_type = Str ''evm'', c_isLive = Bool True \<rparr>,
              a_toChain = \<lparr> c_name = Str ''Polygon'', c_chainId = Str ''137'', c_type = Str ''evm'', c_isLive = Bool True \<rparr>,
              a_fromToken = \<lparr> symbol = ''USDT'', address = ''0x55d3'', decimals = 18, t_chainId = ''56'' \<rparr>,
              a_toToken = \<lparr> symbol = ''USDT'', address = ''0xc213'', decimals = 6, t_chainId = ''137'' \<rparr>,
              a_amount = ''50'',
              a_quote = \<lparr> estimatedGas = 35000, route = [], expectedOutput = ''49.95'', priceImpact = ''0.1'' \<rparr> \<rparr>)"
    using nitro_route_found
    [of "scenario \<lparr> quoteFetch := \<lambda>p. HttpResponse 200 ''OK''
          (JsonBody (Obj [(''estimatedGas'', Num 35000), (''route'', Arr []),
                          (''expectedOutput'', Str ''49.95''), (''priceImpact'', Str ''0.1'')])) \<rparr>"
        "''Bridge 50 USDT from BSC to Polygon''"
        "\<lparr> fromChain = ''BSC'', toChain = ''Polygon'', amount = ''50'',
         fromToken = ''USDT'', toToken = ''USDT'' \<rparr>"
        "\<lparr> success = True,
         data = Some [\<lparr> chain = \<lparr> c_name = Str ''BSC'', c_chainId = Str ''56'',
                         c_type = Str ''evm'', c_isLive = Bool True \<rparr>,
              gas = \<lparr> g_token = Obj [(''symbol'', Str ''BNB'')], g_limits = Obj [] \<rparr>,
              features = \<lparr> f_isIntentApiSupported = Bool False,
                            f_isRefuelEnabled = Bool False,
                            f_isQREnabled = Bool False \<rparr>,
              metadata = \<lparr> m_createdAt = Null, m_updatedAt = Null \<rparr>,
              url = ''https://routernitro.com/chain/56'',
              q_timestamp = ''2024-01-01T00:00:00.000Z'' \<rparr>],
         r_message = ''Found 1 matching chains'',
         r_timestamp = ''2024-01-01T00:00:00.000Z'',
         source = ''RouterNitro'', count = Some 1 \<rparr>"
        "\<lparr> success = True,
         data = Some [\<lparr> chain = \<lparr> c_name = Str ''Polygon'', c_chainId = Str ''137'',
                         c_type = Str ''evm'', c_isLive = Bool True \<rparr>,
              gas = \<lparr> g_token = Obj [(''symbol'', Str ''POL'')], g_limits = Obj [] \<rparr>,
              features = \<lparr> f_isIntentApiSupported = Bool False,
                            f_isRefuelEnabled = Bool False,
                            f_isQREnabled = Bool False \<rparr>,
              metadata = \<lparr> m_createdAt = Null, m_updatedAt = Null \<rparr>,
              url = ''https://routernitro.com/chain/137'',
              q_timestamp = ''2024-01-01T00:00:00.000Z'' \<rparr>],
         r_message = ''Found 1 matching chains'',
         r_timestamp = ''2024-01-01T00:00:00.000Z'',
         source = ''RouterNitro'', count = Some 1 \<rparr>"
        "\<lparr> chain = \<lparr> c_name = Str ''BSC'', c_chainId = Str ''56'',
                         c_type = Str ''evm'', c_isLive = Bool True \<rparr>,
              gas = \<lparr> g_token = Obj [(''symbol'', Str ''BNB'')], g_limits = Obj [] \<rparr>,
              features = \<lparr> f_isIntentApiSupported = Bool False,
                            f_isRefuelEnabled = Bool False,
                            f_isQREnabled = Bool False \<rparr>,
              metadata = \<lparr> m_createdAt = Null, m_updatedAt = Null \<rparr>,
              url = ''https://routernitro.com/chain/56'',
              q_timestamp = ''2024-01-01T00:00:00.000Z'' \<rparr>" "[]"
        "\<lparr> chain = \<lparr> c_name = Str ''Polygon'', c_chainId = Str ''137'',
                         c_type = Str ''evm'', c_isLive = Bool True \<rparr>,
              gas = \<lparr> g_token = Obj [(''symbol'', Str ''POL'')], g_limits = Obj [] \<rparr>,
              features = \<lparr> f_isIntentApiSupported = Bool False,
                            f_isRefuelEnabled = Bool False,
                            f_isQREnabled = Bool False \<rparr>,
              metadata = \<lparr> m_createdAt = Null, m_updatedAt = Null \<rparr>,
              url = ''https://routernitro.com/chain/137'',
              q_timestamp = ''2024-01-01T00:00:00.000Z'' \<rparr>" "[]"
        "\<lparr> symbol = ''USDT'', address = ''0x55d3'', decimals = 18, t_chainId = ''56'' \<rparr>"
        "\<lparr> symbol = ''USDT'', address = ''0xc213'', decimals = 6, t_chainId = ''137'' \<rparr>"
        "\<lparr> estimatedGas = 35000, route = [], expectedOutput = ''49.95'', priceImpact = ''0.1'' \<rparr>"]
    scenario_extract scenario_from_chain scenario_to_chain scenario_from_token
    scenario_to_token scenario_quote' scenario_gas'
    by simp
  from one two show ?thesis by blast
qed

end
